theory Spec2Isabelle
  imports Main "HOL-Library.Word"
begin

section \<open>Key slot management of the PSA crypto layer\<close>

text \<open>
  A shallow embedding of \<^verbatim>\<open>library/psa_crypto_slot_management.c\<close>. The file's global
  \<^verbatim>\<open>global_data\<close> is passed explicitly: every function that touches it takes the
  value and returns it. A pointer into \<^verbatim>\<open>global_data.key_slots\<close> is the index of the
  slot (\<open>Some i\<close> for \<^verbatim>\<open>&global_data.key_slots[i]\<close>); \<open>None\<close> stands for \<^verbatim>\<open>NULL\<close>, and
  for a local that nothing has written yet. An access outside the array is undefined
  behaviour in C; the functions that index the array by a computed value return \<open>None\<close>
  there and \<open>Some\<close> of their result otherwise.
\<close>

subsection \<open>Data\<close>

type_synonym psa_key_id_t = "32 word"
type_synonym psa_key_lifetime_t = "32 word"
type_synonym mbedtls_key_owner_id_t = "32 word"

text \<open>
  The status codes the file returns, and \<open>PSA_ERROR_OTHER\<close> for any other code a
  collaborator may hand back.
\<close>

datatype psa_status_t =
    PSA_SUCCESS
  | PSA_ERROR_INVALID_HANDLE
  | PSA_ERROR_DOES_NOT_EXIST
  | PSA_ERROR_BAD_STATE
  | PSA_ERROR_INSUFFICIENT_MEMORY
  | PSA_ERROR_STORAGE_FAILURE
  | PSA_ERROR_CORRUPTION_DETECTED
  | PSA_ERROR_INVALID_ARGUMENT
  | PSA_ERROR_NOT_SUPPORTED
  | PSA_ERROR_OTHER int

text \<open>
  Modelled from the spec: the declarations of \<^verbatim>\<open>mbedtls_svc_key_id_t\<close>,
  \<^verbatim>\<open>psa_core_key_attributes_t\<close> and \<^verbatim>\<open>psa_key_slot_t\<close> are in headers that are not part
  of the sources. A key identifier is an integer plus an owner tag; a slot holds the
  identifier, the lifetime and the key material or the secure element's slot number.
  The records have the fields the C file reads and writes (\<^verbatim>\<open>attr.id\<close>,
  \<^verbatim>\<open>attr.lifetime\<close>, \<^verbatim>\<open>data.se.slot_number\<close>) and the key material.
\<close>

record mbedtls_svc_key_id_t =
  key_id :: psa_key_id_t
  owner :: mbedtls_key_owner_id_t

record psa_core_key_attributes_t =
  attr_lifetime :: psa_key_lifetime_t
  attr_id :: mbedtls_svc_key_id_t

record psa_key_slot_t =
  attr :: psa_core_key_attributes_t
  data_key :: "8 word list"
  data_se_slot_number :: "64 word"

text \<open>
  \<^verbatim>\<open>psa_global_data_t\<close>. The array is declared with \<^verbatim>\<open>PSA_KEY_SLOT_COUNT\<close> elements,
  so the constant is the length of the list; the one-bit field is a \<open>bool\<close>.
\<close>

record psa_global_data_t =
  key_slots :: "psa_key_slot_t list"
  key_slots_initialized :: bool

definition PSA_KEY_SLOT_COUNT :: "psa_global_data_t \<Rightarrow> nat" where
  "PSA_KEY_SLOT_COUNT g = length (key_slots g)"

text \<open>
  The constants, build options and inline helpers of the missing headers are parameters
  of the model: the bounds of the identifier ranges, the two lifetime values the file
  compares with, whether \<^verbatim>\<open>MBEDTLS_PSA_CRYPTO_STORAGE_C\<close> and
  \<^verbatim>\<open>MBEDTLS_PSA_CRYPTO_SE_C\<close> are defined, and the predicates
  \<^verbatim>\<open>psa_is_key_slot_occupied\<close>, \<^verbatim>\<open>psa_key_handle_is_null\<close> and
  \<^verbatim>\<open>psa_key_lifetime_is_external\<close>.
\<close>

record psa_config =
  PSA_KEY_ID_USER_MIN :: psa_key_id_t
  PSA_KEY_ID_USER_MAX :: psa_key_id_t
  PSA_KEY_ID_VENDOR_MIN :: psa_key_id_t
  PSA_KEY_ID_VOLATILE_MIN :: psa_key_id_t
  PSA_KEY_ID_VOLATILE_MAX :: psa_key_id_t
  PSA_KEY_LIFETIME_VOLATILE :: psa_key_lifetime_t
  PSA_KEY_LIFETIME_PERSISTENT :: psa_key_lifetime_t
  MBEDTLS_PSA_CRYPTO_STORAGE_C :: bool
  MBEDTLS_PSA_CRYPTO_SE_C :: bool
  psa_is_key_slot_occupied :: "psa_key_slot_t \<Rightarrow> bool"
  psa_key_handle_is_null :: "mbedtls_svc_key_id_t \<Rightarrow> bool"
  psa_key_lifetime_is_external :: "psa_key_lifetime_t \<Rightarrow> bool"

text \<open>
  The collaborators of the persistent loader, parameters as well. The storage backend
  \<^verbatim>\<open>psa_load_persistent_key\<close> gets the slot's attributes through a pointer and returns
  a status, the attributes as it leaves them, and the buffer;
  \<^verbatim>\<open>psa_copy_key_material_into_slot\<close> returns a status and the slot as it leaves it.
  \<open>sizeof_psa_se_key_data_storage_t\<close> is the size of the secure element's record and
  \<open>se_slot_number_of\<close> reads the slot number at the start of the buffer.
\<close>

record psa_storage =
  psa_load_persistent_key ::
    "psa_core_key_attributes_t \<Rightarrow> psa_status_t \<times> psa_core_key_attributes_t \<times> 8 word list"
  psa_copy_key_material_into_slot ::
    "psa_key_slot_t \<Rightarrow> 8 word list \<Rightarrow> psa_status_t \<times> psa_key_slot_t"
  sizeof_psa_se_key_data_storage_t :: nat
  se_slot_number_of :: "8 word list \<Rightarrow> 64 word"

text \<open>The all-zero identifier and the all-zero slot.\<close>

definition null_key_id :: mbedtls_svc_key_id_t where
  "null_key_id = \<lparr>key_id = 0, owner = 0\<rparr>"

definition empty_slot :: psa_key_slot_t where
  "empty_slot =
     \<lparr>attr = \<lparr>attr_lifetime = 0, attr_id = null_key_id\<rparr>,
      data_key = [], data_se_slot_number = 0\<rparr>"

text \<open>
  Modelled from the spec: \<^verbatim>\<open>MBEDTLS_SVC_KEY_ID_GET_KEY_ID\<close>, \<^verbatim>\<open>mbedtls_svc_key_id_equal\<close>
  and \<^verbatim>\<open>psa_key_id_is_volatile\<close> are defined in missing headers. The first reads the
  integer part of an identifier, the second compares complete identifiers (owner tag
  included), the third tests membership of the volatile range.
\<close>

definition MBEDTLS_SVC_KEY_ID_GET_KEY_ID :: "mbedtls_svc_key_id_t \<Rightarrow> psa_key_id_t" where
  "MBEDTLS_SVC_KEY_ID_GET_KEY_ID key = key_id key"

definition mbedtls_svc_key_id_equal ::
  "mbedtls_svc_key_id_t \<Rightarrow> mbedtls_svc_key_id_t \<Rightarrow> bool" where
  "mbedtls_svc_key_id_equal id1 id2 \<longleftrightarrow> key_id id1 = key_id id2 \<and> owner id1 = owner id2"

definition psa_key_id_is_volatile :: "psa_config \<Rightarrow> psa_key_id_t \<Rightarrow> bool" where
  "psa_key_id_is_volatile cfg kid \<longleftrightarrow>
     PSA_KEY_ID_VOLATILE_MIN cfg \<le> kid \<and> kid \<le> PSA_KEY_ID_VOLATILE_MAX cfg"

text \<open>
  Modelled from the spec: \<^verbatim>\<open>psa_wipe_key_slot\<close> is defined in a file that is not part
  of the sources. A wipe zeroizes the key material and resets the slot to the all-zero
  empty state; it reports success.
\<close>

definition psa_wipe_key_slot ::
  "nat \<Rightarrow> psa_global_data_t \<Rightarrow> psa_status_t \<times> psa_global_data_t" where
  "psa_wipe_key_slot slot g =
     (PSA_SUCCESS, g\<lparr>key_slots := (key_slots g)[slot := empty_slot]\<rparr>)"

subsection \<open>Identifier validation\<close>

text \<open>\<^verbatim>\<open>psa_validate_key_id\<close>: the flags are C \<^verbatim>\<open>int\<close>s, true when not zero.\<close>

definition psa_validate_key_id ::
  "psa_config \<Rightarrow> mbedtls_svc_key_id_t \<Rightarrow> int \<Rightarrow> int \<Rightarrow> psa_status_t" where
  "psa_validate_key_id cfg key vendor_ok volatile_ok =
     (let kid = MBEDTLS_SVC_KEY_ID_GET_KEY_ID key in
      if PSA_KEY_ID_USER_MIN cfg \<le> kid \<and> kid \<le> PSA_KEY_ID_USER_MAX cfg
      then PSA_SUCCESS
      else if vendor_ok \<noteq> 0 \<and> PSA_KEY_ID_VENDOR_MIN cfg \<le> kid \<and>
              kid < PSA_KEY_ID_VOLATILE_MIN cfg
      then PSA_SUCCESS
      else if volatile_ok \<noteq> 0 \<and> PSA_KEY_ID_VOLATILE_MIN cfg \<le> kid \<and>
              kid \<le> PSA_KEY_ID_VOLATILE_MAX cfg
      then PSA_SUCCESS
      else PSA_ERROR_INVALID_HANDLE)"

subsection \<open>Search\<close>

text \<open>
  The scan of \<^verbatim>\<open>psa_search_key_in_slots\<close> for an identifier that is not volatile:
  \<^verbatim>\<open>slot\<close> starts one past the last slot and is decremented while it is above the first.
  The argument is the number of slots still below \<^verbatim>\<open>slot\<close>; the result is the status and
  the final value of \<^verbatim>\<open>slot\<close>.
\<close>

fun search_scan ::
  "mbedtls_svc_key_id_t \<Rightarrow> psa_key_slot_t list \<Rightarrow> nat \<Rightarrow> psa_status_t \<times> nat" where
  "search_scan key slots 0 = (PSA_ERROR_DOES_NOT_EXIST, 0)"
| "search_scan key slots (Suc n) =
     (if mbedtls_svc_key_id_equal key (attr_id (attr (slots ! n)))
      then (PSA_SUCCESS, n)
      else search_scan key slots n)"

text \<open>
  \<^verbatim>\<open>psa_search_key_in_slots\<close>. \<open>p_slot\<close> is the value of \<^verbatim>\<open>*p_slot\<close> at the call; it is
  overwritten on success only. The direct index of a volatile identifier is not checked
  against the array's bound in C: the model returns \<open>None\<close> when it is outside.
\<close>

definition psa_search_key_in_slots ::
  "psa_config \<Rightarrow> mbedtls_svc_key_id_t \<Rightarrow> nat option \<Rightarrow> psa_global_data_t \<Rightarrow>
     (psa_status_t \<times> nat option \<times> psa_global_data_t) option" where
  "psa_search_key_in_slots cfg key p_slot g =
     (let kid = MBEDTLS_SVC_KEY_ID_GET_KEY_ID key;
          status = psa_validate_key_id cfg key 1 1 in
      if status \<noteq> PSA_SUCCESS then Some (status, p_slot, g)
      else if psa_key_id_is_volatile cfg kid then
        (let slot = unat (kid - PSA_KEY_ID_VOLATILE_MIN cfg) in
         if slot < PSA_KEY_SLOT_COUNT g then
           (if \<not> mbedtls_svc_key_id_equal key (attr_id (attr (key_slots g ! slot)))
            then Some (PSA_ERROR_DOES_NOT_EXIST, p_slot, g)
            else Some (PSA_SUCCESS, Some slot, g))
         else None)
      else
        (case search_scan key (key_slots g) (PSA_KEY_SLOT_COUNT g) of
           (status, slot) \<Rightarrow>
             if status = PSA_SUCCESS then Some (status, Some slot, g)
             else Some (status, p_slot, g)))"

subsection \<open>Initialisation and teardown\<close>

definition psa_initialize_key_slots ::
  "psa_global_data_t \<Rightarrow> psa_status_t \<times> psa_global_data_t" where
  "psa_initialize_key_slots g = (PSA_SUCCESS, g\<lparr>key_slots_initialized := True\<rparr>)"

text \<open>\<^verbatim>\<open>psa_wipe_all_key_slots\<close>: the loop runs \<^verbatim>\<open>slot_idx\<close> from 0 up.\<close>

definition psa_wipe_all_key_slots :: "psa_global_data_t \<Rightarrow> psa_global_data_t" where
  "psa_wipe_all_key_slots g =
     (fold (\<lambda>slot_idx g. snd (psa_wipe_key_slot slot_idx g))
        [0 ..< PSA_KEY_SLOT_COUNT g] g)
     \<lparr>key_slots_initialized := False\<rparr>"

subsection \<open>Allocation\<close>

text \<open>
  The loop of \<^verbatim>\<open>psa_get_empty_key_slot\<close>: \<^verbatim>\<open>slot_idx\<close> runs from the slot count down to
  1 and looks at slot \<^verbatim>\<open>slot_idx - 1\<close>. The identifier is computed in 32 bits. The result
  is the status, the value of \<^verbatim>\<open>*volatile_key_id\<close> and the value of \<^verbatim>\<open>*p_slot\<close>.
\<close>

fun get_empty_scan ::
  "psa_config \<Rightarrow> psa_key_slot_t list \<Rightarrow> psa_key_id_t option \<Rightarrow> nat \<Rightarrow>
     psa_status_t \<times> psa_key_id_t option \<times> nat option" where
  "get_empty_scan cfg slots volatile_key_id 0 =
     (PSA_ERROR_INSUFFICIENT_MEMORY, volatile_key_id, None)"
| "get_empty_scan cfg slots volatile_key_id (Suc n) =
     (if \<not> psa_is_key_slot_occupied cfg (slots ! n)
      then (PSA_SUCCESS,
            Some (PSA_KEY_ID_VOLATILE_MIN cfg + of_nat (Suc n) - 1),
            Some n)
      else get_empty_scan cfg slots volatile_key_id n)"

definition psa_get_empty_key_slot ::
  "psa_config \<Rightarrow> psa_key_id_t option \<Rightarrow> nat option \<Rightarrow> psa_global_data_t \<Rightarrow>
     psa_status_t \<times> psa_key_id_t option \<times> nat option \<times> psa_global_data_t" where
  "psa_get_empty_key_slot cfg volatile_key_id p_slot g =
     (if \<not> key_slots_initialized g
      then (PSA_ERROR_BAD_STATE, volatile_key_id, p_slot, g)
      else
        (case get_empty_scan cfg (key_slots g) volatile_key_id (PSA_KEY_SLOT_COUNT g) of
           (status, volatile_key_id', p_slot') \<Rightarrow>
             (status, volatile_key_id', p_slot', g)))"

subsection \<open>Loading a persistent key\<close>

text \<open>
  \<^verbatim>\<open>psa_load_persistent_key_into_slot\<close>, compiled when
  \<^verbatim>\<open>MBEDTLS_PSA_CRYPTO_STORAGE_C\<close> is defined, first on the slot it is given. Every path
  goes through \<^verbatim>\<open>exit\<close>, which frees the buffer and leaves the slot as it is.
\<close>

definition load_persistent_key_into ::
  "psa_config \<Rightarrow> psa_storage \<Rightarrow> psa_key_slot_t \<Rightarrow> psa_status_t \<times> psa_key_slot_t" where
  "load_persistent_key_into cfg stor slot =
     (case psa_load_persistent_key stor (attr slot) of
        (status, attr', key_data) \<Rightarrow>
          (let slot = slot\<lparr>attr := attr'\<rparr> in
           if status \<noteq> PSA_SUCCESS then (status, slot)
           else if MBEDTLS_PSA_CRYPTO_SE_C cfg \<and>
                   psa_key_lifetime_is_external cfg (attr_lifetime (attr slot))
           then
             (if length key_data \<noteq> sizeof_psa_se_key_data_storage_t stor
              then (PSA_ERROR_STORAGE_FAILURE, slot)
              else (status, slot\<lparr>data_se_slot_number := se_slot_number_of stor key_data\<rparr>))
           else psa_copy_key_material_into_slot stor slot key_data))"

text \<open>The same on a pointer into the table.\<close>

definition psa_load_persistent_key_into_slot ::
  "psa_config \<Rightarrow> psa_storage \<Rightarrow> nat \<Rightarrow> psa_global_data_t \<Rightarrow>
     psa_status_t \<times> psa_global_data_t" where
  "psa_load_persistent_key_into_slot cfg stor slot g =
     (case load_persistent_key_into cfg stor (key_slots g ! slot) of
        (status, slot') \<Rightarrow> (status, g\<lparr>key_slots := (key_slots g)[slot := slot']\<rparr>))"

subsection \<open>Getting, closing and purging a key\<close>

text \<open>
  \<^verbatim>\<open>psa_get_key_slot\<close>. The result is the status, the final \<^verbatim>\<open>*p_slot\<close> and the table.
  The local \<^verbatim>\<open>volatile_key_id\<close> is not initialised, hence \<open>None\<close>. The two assignments
  through \<^verbatim>\<open>*p_slot\<close> set the lifetime and the identifier of the slot it points to.
\<close>

definition set_slot_lifetime_id ::
  "psa_key_lifetime_t \<Rightarrow> mbedtls_svc_key_id_t \<Rightarrow> psa_key_slot_t \<Rightarrow> psa_key_slot_t" where
  "set_slot_lifetime_id lt key slot =
     slot\<lparr>attr := (attr slot)\<lparr>attr_lifetime := lt, attr_id := key\<rparr>\<rparr>"

definition psa_get_key_slot ::
  "psa_config \<Rightarrow> psa_storage \<Rightarrow> mbedtls_svc_key_id_t \<Rightarrow> psa_global_data_t \<Rightarrow>
     (psa_status_t \<times> nat option \<times> psa_global_data_t) option" where
  "psa_get_key_slot cfg stor key g =
     (if \<not> key_slots_initialized g then Some (PSA_ERROR_BAD_STATE, None, g)
      else
        (case psa_search_key_in_slots cfg key None g of
           None \<Rightarrow> None
         | Some (status, p_slot, g) \<Rightarrow>
             if status \<noteq> PSA_ERROR_DOES_NOT_EXIST then Some (status, p_slot, g)
             else if MBEDTLS_PSA_CRYPTO_STORAGE_C cfg then
               (case psa_get_empty_key_slot cfg None p_slot g of
                  (status, volatile_key_id, p_slot, g) \<Rightarrow>
                    if status \<noteq> PSA_SUCCESS then Some (status, p_slot, g)
                    else
                      (case p_slot of
                         None \<Rightarrow> None
                       | Some slot \<Rightarrow>
                           (let g = g\<lparr>key_slots := (key_slots g)
                                      [slot := set_slot_lifetime_id
                                         (PSA_KEY_LIFETIME_PERSISTENT cfg) key
                                         (key_slots g ! slot)]\<rparr> in
                            case psa_load_persistent_key_into_slot cfg stor slot g of
                              (status, g) \<Rightarrow>
                                if status \<noteq> PSA_SUCCESS
                                then Some (status, p_slot, snd (psa_wipe_key_slot slot g))
                                else Some (status, p_slot, g))))
             else Some (PSA_ERROR_DOES_NOT_EXIST, p_slot, g)))"

text \<open>\<^verbatim>\<open>psa_close_key\<close> and \<^verbatim>\<open>psa_purge_key\<close>: the local \<^verbatim>\<open>slot\<close> is not initialised.\<close>

definition psa_close_key ::
  "psa_config \<Rightarrow> mbedtls_svc_key_id_t \<Rightarrow> psa_global_data_t \<Rightarrow>
     (psa_status_t \<times> psa_global_data_t) option" where
  "psa_close_key cfg handle g =
     (if psa_key_handle_is_null cfg handle then Some (PSA_SUCCESS, g)
      else
        (case psa_search_key_in_slots cfg handle None g of
           None \<Rightarrow> None
         | Some (status, slot, g) \<Rightarrow>
             if status \<noteq> PSA_SUCCESS then Some (status, g)
             else (case slot of
                     None \<Rightarrow> None
                   | Some i \<Rightarrow> Some (psa_wipe_key_slot i g))))"

definition psa_purge_key ::
  "psa_config \<Rightarrow> mbedtls_svc_key_id_t \<Rightarrow> psa_global_data_t \<Rightarrow>
     (psa_status_t \<times> psa_global_data_t) option" where
  "psa_purge_key cfg key g =
     (case psa_search_key_in_slots cfg key None g of
        None \<Rightarrow> None
      | Some (status, slot, g) \<Rightarrow>
          if status \<noteq> PSA_SUCCESS then Some (status, g)
          else (case slot of
                  None \<Rightarrow> None
                | Some i \<Rightarrow>
                    if attr_lifetime (attr (key_slots g ! i)) = PSA_KEY_LIFETIME_VOLATILE cfg
                    then Some (PSA_SUCCESS, g)
                    else Some (psa_wipe_key_slot i g)))"

subsection \<open>Statistics\<close>

text \<open>
  The fields of \<^verbatim>\<open>mbedtls_psa_stats_t\<close> that the file writes. The counters are
  \<^verbatim>\<open>size_t\<close>; they count slots of an array, so they cannot overflow and are naturals.
\<close>

record mbedtls_psa_stats_t =
  volatile_slots :: nat
  persistent_slots :: nat
  external_slots :: nat
  empty_slots :: nat
  max_open_internal_key_id :: psa_key_id_t
  max_open_external_key_id :: psa_key_id_t

text \<open>The \<^verbatim>\<open>memset\<close> of the statistics.\<close>

definition zero_stats :: mbedtls_psa_stats_t where
  "zero_stats =
     \<lparr>volatile_slots = 0, persistent_slots = 0, external_slots = 0, empty_slots = 0,
      max_open_internal_key_id = 0, max_open_external_key_id = 0\<rparr>"

text \<open>One iteration of the loop of \<^verbatim>\<open>mbedtls_psa_get_stats\<close>, on the slot it reads.\<close>

definition get_stats_slot ::
  "psa_config \<Rightarrow> psa_key_slot_t \<Rightarrow> mbedtls_psa_stats_t \<Rightarrow> mbedtls_psa_stats_t" where
  "get_stats_slot cfg slot stats =
     (if \<not> psa_is_key_slot_occupied cfg slot
      then stats\<lparr>empty_slots := empty_slots stats + 1\<rparr>
      else if attr_lifetime (attr slot) = PSA_KEY_LIFETIME_VOLATILE cfg
      then stats\<lparr>volatile_slots := volatile_slots stats + 1\<rparr>
      else if attr_lifetime (attr slot) = PSA_KEY_LIFETIME_PERSISTENT cfg
      then
        (let kid = MBEDTLS_SVC_KEY_ID_GET_KEY_ID (attr_id (attr slot));
             stats = stats\<lparr>persistent_slots := persistent_slots stats + 1\<rparr> in
         if kid > max_open_internal_key_id stats
         then stats\<lparr>max_open_internal_key_id := kid\<rparr> else stats)
      else
        (let kid = MBEDTLS_SVC_KEY_ID_GET_KEY_ID (attr_id (attr slot));
             stats = stats\<lparr>external_slots := external_slots stats + 1\<rparr> in
         if kid > max_open_external_key_id stats
         then stats\<lparr>max_open_external_key_id := kid\<rparr> else stats))"

text \<open>
  \<^verbatim>\<open>mbedtls_psa_get_stats\<close>: \<^verbatim>\<open>slot_idx\<close> runs from 0 up to the slot count. The result
  is the statistics written to \<^verbatim>\<open>*stats\<close> and the table.
\<close>

definition mbedtls_psa_get_stats ::
  "psa_config \<Rightarrow> psa_global_data_t \<Rightarrow> mbedtls_psa_stats_t \<times> psa_global_data_t" where
  "mbedtls_psa_get_stats cfg g =
     (fold (\<lambda>slot_idx stats. get_stats_slot cfg (key_slots g ! slot_idx) stats)
        [0 ..< PSA_KEY_SLOT_COUNT g] zero_stats,
      g)"

text \<open>
  The statistics as the specification words them, for comparison with the loop: a slot
  counts as volatile, persistent or external when it is occupied and its lifetime is
  the volatile one, the persistent one, or neither; the maximum identifier of a
  category is taken over its slots and is 0 when there is none.
\<close>

definition is_volatile_slot :: "psa_config \<Rightarrow> psa_key_slot_t \<Rightarrow> bool" where
  "is_volatile_slot cfg s \<longleftrightarrow>
     psa_is_key_slot_occupied cfg s \<and>
     attr_lifetime (attr s) = PSA_KEY_LIFETIME_VOLATILE cfg"

definition is_persistent_slot :: "psa_config \<Rightarrow> psa_key_slot_t \<Rightarrow> bool" where
  "is_persistent_slot cfg s \<longleftrightarrow>
     psa_is_key_slot_occupied cfg s \<and>
     attr_lifetime (attr s) \<noteq> PSA_KEY_LIFETIME_VOLATILE cfg \<and>
     attr_lifetime (attr s) = PSA_KEY_LIFETIME_PERSISTENT cfg"

definition is_external_slot :: "psa_config \<Rightarrow> psa_key_slot_t \<Rightarrow> bool" where
  "is_external_slot cfg s \<longleftrightarrow>
     psa_is_key_slot_occupied cfg s \<and>
     attr_lifetime (attr s) \<noteq> PSA_KEY_LIFETIME_VOLATILE cfg \<and>
     attr_lifetime (attr s) \<noteq> PSA_KEY_LIFETIME_PERSISTENT cfg"

definition max_key_id :: "psa_key_slot_t list \<Rightarrow> psa_key_id_t" where
  "max_key_id slots = Max (set (0 # map (\<lambda>s. key_id (attr_id (attr s))) slots))"

definition stats_by_category :: "psa_config \<Rightarrow> psa_key_slot_t list \<Rightarrow> mbedtls_psa_stats_t" where
  "stats_by_category cfg slots =
     \<lparr>volatile_slots = length (filter (is_volatile_slot cfg) slots),
      persistent_slots = length (filter (is_persistent_slot cfg) slots),
      external_slots = length (filter (is_external_slot cfg) slots),
      empty_slots = length (filter (\<lambda>s. \<not> psa_is_key_slot_occupied cfg s) slots),
      max_open_internal_key_id = max_key_id (filter (is_persistent_slot cfg) slots),
      max_open_external_key_id = max_key_id (filter (is_external_slot cfg) slots)\<rparr>"

subsection \<open>Well-formed configurations\<close>

text \<open>
  The identifier ranges of the data model: the user, vendor and volatile ranges follow
  one another without overlap, and the all-zero identifier is in none of them.
\<close>

definition key_id_ranges_ok :: "psa_config \<Rightarrow> bool" where
  "key_id_ranges_ok cfg \<longleftrightarrow>
     0 < PSA_KEY_ID_USER_MIN cfg \<and>
     PSA_KEY_ID_USER_MIN cfg \<le> PSA_KEY_ID_USER_MAX cfg \<and>
     PSA_KEY_ID_USER_MAX cfg < PSA_KEY_ID_VENDOR_MIN cfg \<and>
     PSA_KEY_ID_VENDOR_MIN cfg \<le> PSA_KEY_ID_VOLATILE_MIN cfg \<and>
     PSA_KEY_ID_VOLATILE_MIN cfg \<le> PSA_KEY_ID_VOLATILE_MAX cfg"

text \<open>
  The volatile range has one identifier per slot of the table, so that the direct index
  of a volatile identifier is inside the array.
\<close>

definition volatile_range_is_table :: "psa_config \<Rightarrow> psa_global_data_t \<Rightarrow> bool" where
  "volatile_range_is_table cfg g \<longleftrightarrow>
     unat (PSA_KEY_ID_VOLATILE_MIN cfg) + PSA_KEY_SLOT_COUNT g =
       unat (PSA_KEY_ID_VOLATILE_MAX cfg) + 1"

subsection \<open>A configuration with four slots\<close>

text \<open>
  Modelled from the spec: \<^verbatim>\<open>psa_is_key_slot_occupied\<close> is defined in a missing header.
  A slot is occupied when its identifier is not the all-zero sentinel.
\<close>

definition slot_is_occupied :: "psa_key_slot_t \<Rightarrow> bool" where
  "slot_is_occupied slot \<longleftrightarrow> attr_id (attr slot) \<noteq> null_key_id"

text \<open>
  A build with persistent storage and without secure elements, a table of four slots
  and the volatile range at the top of the vendor range.
\<close>

definition example_config :: psa_config where
  "example_config =
     \<lparr>PSA_KEY_ID_USER_MIN = 0x00000001,
      PSA_KEY_ID_USER_MAX = 0x3fffffff,
      PSA_KEY_ID_VENDOR_MIN = 0x40000000,
      PSA_KEY_ID_VOLATILE_MIN = 0x7ffffffc,
      PSA_KEY_ID_VOLATILE_MAX = 0x7fffffff,
      PSA_KEY_LIFETIME_VOLATILE = 0,
      PSA_KEY_LIFETIME_PERSISTENT = 1,
      MBEDTLS_PSA_CRYPTO_STORAGE_C = True,
      MBEDTLS_PSA_CRYPTO_SE_C = False,
      psa_is_key_slot_occupied = slot_is_occupied,
      psa_key_handle_is_null = (\<lambda>h. key_id h = 0),
      psa_key_lifetime_is_external = (\<lambda>lt. drop_bit 8 lt \<noteq> 0)\<rparr>"

text \<open>A storage backend whose every read fails.\<close>

definition failing_storage :: psa_storage where
  "failing_storage =
     \<lparr>psa_load_persistent_key = (\<lambda>a. (PSA_ERROR_STORAGE_FAILURE, a, [])),
      psa_copy_key_material_into_slot = (\<lambda>slot bytes. (PSA_SUCCESS, slot\<lparr>data_key := bytes\<rparr>)),
      sizeof_psa_se_key_data_storage_t = 8,
      se_slot_number_of = (\<lambda>bytes. 0)\<rparr>"

text \<open>A slot with a lifetime, an identifier of owner 0 and key material.\<close>

definition mk_slot :: "psa_key_lifetime_t \<Rightarrow> psa_key_id_t \<Rightarrow> 8 word list \<Rightarrow> psa_key_slot_t" where
  "mk_slot lt kid bytes =
     \<lparr>attr = \<lparr>attr_lifetime = lt, attr_id = \<lparr>key_id = kid, owner = 0\<rparr>\<rparr>,
      data_key = bytes, data_se_slot_number = 0\<rparr>"

text \<open>Two volatile keys, one persistent key with identifier 50 and one empty slot.\<close>

definition scenario_table :: psa_global_data_t where
  "scenario_table =
     \<lparr>key_slots = [mk_slot 0 0x7ffffffc [1, 2], mk_slot 0 0x7ffffffd [3], mk_slot 1 50 [4, 5], empty_slot],
      key_slots_initialized = True\<rparr>"

text \<open>The same table after the volatile key of slot 1 has been closed.\<close>

definition closed_table :: psa_global_data_t where
  "closed_table =
     \<lparr>key_slots = [mk_slot 0 0x7ffffffc [1, 2], empty_slot, mk_slot 1 50 [4, 5], empty_slot],
      key_slots_initialized = True\<rparr>"

text \<open>A full table: slot 3 holds a persistent key.\<close>

definition full_table :: psa_global_data_t where
  "full_table =
     \<lparr>key_slots = [mk_slot 0 0x7ffffffc [1, 2], mk_slot 0 0x7ffffffd [3], mk_slot 1 50 [4, 5],
                   mk_slot 1 51 [6]],
      key_slots_initialized = True\<rparr>"

text \<open>The table before \<^verbatim>\<open>psa_initialize_key_slots\<close>.\<close>

definition fresh_table :: psa_global_data_t where
  "fresh_table = \<lparr>key_slots = replicate 4 empty_slot, key_slots_initialized = False\<rparr>"


section \<open>Properties\<close>

subsection \<open>Auxiliary facts\<close>

lemma validate_volatile:
  "psa_key_id_is_volatile cfg (key_id key) \<Longrightarrow> psa_validate_key_id cfg key 1 1 = PSA_SUCCESS"
  by (simp add: psa_validate_key_id_def psa_key_id_is_volatile_def
      MBEDTLS_SVC_KEY_ID_GET_KEY_ID_def Let_def)

lemma key_id_equal_iff: "mbedtls_svc_key_id_equal a b \<longleftrightarrow> a = b"
  by (auto simp: mbedtls_svc_key_id_equal_def)

lemma search_volatile:
  assumes "psa_key_id_is_volatile cfg (key_id key)"
    and "unat (key_id key - PSA_KEY_ID_VOLATILE_MIN cfg) < PSA_KEY_SLOT_COUNT g"
  shows "psa_search_key_in_slots cfg key p g =
     Some (if attr_id (attr (key_slots g ! unat (key_id key - PSA_KEY_ID_VOLATILE_MIN cfg))) = key
           then (PSA_SUCCESS, Some (unat (key_id key - PSA_KEY_ID_VOLATILE_MIN cfg)), g)
           else (PSA_ERROR_DOES_NOT_EXIST, p, g))"
  using assms
  by (auto simp: psa_search_key_in_slots_def validate_volatile key_id_equal_iff
      MBEDTLS_SVC_KEY_ID_GET_KEY_ID_def Let_def)

lemma volatile_index_in_table:
  assumes "volatile_range_is_table cfg g" and "psa_key_id_is_volatile cfg kid"
  shows "unat (kid - PSA_KEY_ID_VOLATILE_MIN cfg) < PSA_KEY_SLOT_COUNT g"
proof -
  from assms(2) have le: "PSA_KEY_ID_VOLATILE_MIN cfg \<le> kid" "kid \<le> PSA_KEY_ID_VOLATILE_MAX cfg"
    by (simp_all add: psa_key_id_is_volatile_def)
  from le(1) have "unat (kid - PSA_KEY_ID_VOLATILE_MIN cfg) = unat kid - unat (PSA_KEY_ID_VOLATILE_MIN cfg)"
    by (rule unat_sub)
  moreover from le have "unat (PSA_KEY_ID_VOLATILE_MIN cfg) \<le> unat kid" "unat kid \<le> unat (PSA_KEY_ID_VOLATILE_MAX cfg)"
    by (simp_all add: word_le_nat_alt)
  ultimately show ?thesis
    using assms(1) by (simp add: volatile_range_is_table_def)
qed

lemma search_scan_hit:
  "search_scan key slots n = (PSA_SUCCESS, i) \<Longrightarrow> i < n \<and> attr_id (attr (slots ! i)) = key"
  by (induction n) (auto simp: key_id_equal_iff split: if_splits)

lemma wipe_fold:
  "n \<le> length (key_slots g) \<Longrightarrow>
   fold (\<lambda>slot_idx g. snd (psa_wipe_key_slot slot_idx g)) [0 ..< n] g =
     g\<lparr>key_slots := replicate n empty_slot @ drop n (key_slots g)\<rparr>"
proof (induction n)
  case 0
  then show ?case by simp
next
  case (Suc n)
  then have "n < length (key_slots g)" by simp
  then have "(replicate n empty_slot @ drop n (key_slots g))[n := empty_slot] =
      replicate (Suc n) empty_slot @ drop (Suc n) (key_slots g)"
    by (simp add: list_update_append replicate_append_same upd_conv_take_nth_drop
        flip: Cons_nth_drop_Suc)
  with Suc show ?case
    by (simp add: psa_wipe_key_slot_def)
qed

lemma wipe_all_slots:
  "psa_wipe_all_key_slots g =
     \<lparr>key_slots = replicate (PSA_KEY_SLOT_COUNT g) empty_slot, key_slots_initialized = False\<rparr>"
  by (simp add: psa_wipe_all_key_slots_def wipe_fold PSA_KEY_SLOT_COUNT_def)

lemma get_empty_scan_full:
  "(\<forall>i<n. psa_is_key_slot_occupied cfg (slots ! i)) \<Longrightarrow>
   get_empty_scan cfg slots v n = (PSA_ERROR_INSUFFICIENT_MEMORY, v, None)"
  by (induction n) auto

lemma get_empty_scan_free:
  "\<exists>i<n. \<not> psa_is_key_slot_occupied cfg (slots ! i) \<Longrightarrow>
   \<exists>i<n. \<not> psa_is_key_slot_occupied cfg (slots ! i) \<and>
         (\<forall>j. i < j \<and> j < n \<longrightarrow> psa_is_key_slot_occupied cfg (slots ! j)) \<and>
         get_empty_scan cfg slots v n =
           (PSA_SUCCESS, Some (PSA_KEY_ID_VOLATILE_MIN cfg + of_nat i), Some i)"
proof (induction n)
  case 0
  then show ?case by simp
next
  case (Suc n)
  show ?case
  proof (cases "psa_is_key_slot_occupied cfg (slots ! n)")
    case False
    then show ?thesis by (intro exI [of _ n]) auto
  next
    case True
    with Suc.prems have "\<exists>i<n. \<not> psa_is_key_slot_occupied cfg (slots ! i)"
      by (metis less_Suc_eq)
    from Suc.IH [OF this] obtain i where i: "i < n" "\<not> psa_is_key_slot_occupied cfg (slots ! i)"
      "\<forall>j. i < j \<and> j < n \<longrightarrow> psa_is_key_slot_occupied cfg (slots ! j)"
      "get_empty_scan cfg slots v n = (PSA_SUCCESS, Some (PSA_KEY_ID_VOLATILE_MIN cfg + of_nat i), Some i)"
      by blast
    with True show ?thesis
      by (intro exI [of _ i]) (auto simp: less_Suc_eq)
  qed
qed

lemma example_config_ranges_ok: "key_id_ranges_ok example_config"
  by (simp add: key_id_ranges_ok_def example_config_def)

subsection \<open>Identifier validation\<close>

text \<open>
  Claim C4. With the identifier ranges of the data model, \<^verbatim>\<open>psa_validate_key_id\<close>
  accepts every identifier of the user range whatever the flags; it accepts an
  identifier of the vendor range (from \<^verbatim>\<open>PSA_KEY_ID_VENDOR_MIN\<close> to just below
  \<^verbatim>\<open>PSA_KEY_ID_VOLATILE_MIN\<close>) exactly when \<^verbatim>\<open>vendor_ok\<close> is set, and an identifier
  of the volatile range exactly when \<^verbatim>\<open>volatile_ok\<close> is set; the refusal is
  \<^verbatim>\<open>PSA_ERROR_INVALID_HANDLE\<close>, which is also the answer, whatever the flags, for every
  identifier outside the three ranges.
\<close>

theorem validate_key_id_ranges:
  assumes "key_id_ranges_ok cfg"
  shows "(PSA_KEY_ID_USER_MIN cfg \<le> key_id key \<and> key_id key \<le> PSA_KEY_ID_USER_MAX cfg \<longrightarrow>
            psa_validate_key_id cfg key vendor_ok volatile_ok = PSA_SUCCESS) \<and>
         (PSA_KEY_ID_VENDOR_MIN cfg \<le> key_id key \<and> key_id key < PSA_KEY_ID_VOLATILE_MIN cfg \<longrightarrow>
            psa_validate_key_id cfg key vendor_ok volatile_ok =
              (if vendor_ok \<noteq> 0 then PSA_SUCCESS else PSA_ERROR_INVALID_HANDLE)) \<and>
         (PSA_KEY_ID_VOLATILE_MIN cfg \<le> key_id key \<and> key_id key \<le> PSA_KEY_ID_VOLATILE_MAX cfg \<longrightarrow>
            psa_validate_key_id cfg key vendor_ok volatile_ok =
              (if volatile_ok \<noteq> 0 then PSA_SUCCESS else PSA_ERROR_INVALID_HANDLE)) \<and>
         (\<not> (PSA_KEY_ID_USER_MIN cfg \<le> key_id key \<and> key_id key \<le> PSA_KEY_ID_USER_MAX cfg) \<and>
          \<not> (PSA_KEY_ID_VENDOR_MIN cfg \<le> key_id key \<and> key_id key < PSA_KEY_ID_VOLATILE_MIN cfg) \<and>
          \<not> (PSA_KEY_ID_VOLATILE_MIN cfg \<le> key_id key \<and> key_id key \<le> PSA_KEY_ID_VOLATILE_MAX cfg) \<longrightarrow>
            psa_validate_key_id cfg key vendor_ok volatile_ok = PSA_ERROR_INVALID_HANDLE)"
  using assms
  by (auto simp: psa_validate_key_id_def key_id_ranges_ok_def MBEDTLS_SVC_KEY_ID_GET_KEY_ID_def
      Let_def)

theorem validate_key_id_ranges_witness:
  "key_id_ranges_ok example_config \<and>
   psa_validate_key_id example_config \<lparr>key_id = 5, owner = 0\<rparr> 0 0 = PSA_SUCCESS \<and>
   psa_validate_key_id example_config \<lparr>key_id = 0x40000000, owner = 0\<rparr> 1 0 = PSA_SUCCESS \<and>
   psa_validate_key_id example_config \<lparr>key_id = 0x40000000, owner = 0\<rparr> 0 1 =
     PSA_ERROR_INVALID_HANDLE \<and>
   psa_validate_key_id example_config \<lparr>key_id = 0x7ffffffd, owner = 0\<rparr> 0 1 = PSA_SUCCESS \<and>
   psa_validate_key_id example_config \<lparr>key_id = 0x7ffffffd, owner = 0\<rparr> 1 0 =
     PSA_ERROR_INVALID_HANDLE \<and>
   psa_validate_key_id example_config \<lparr>key_id = 0, owner = 0\<rparr> 1 1 = PSA_ERROR_INVALID_HANDLE \<and>
   psa_validate_key_id example_config \<lparr>key_id = 0x80000000, owner = 0\<rparr> 1 1 =
     PSA_ERROR_INVALID_HANDLE"
proof -
  note t = validate_key_id_ranges [OF example_config_ranges_ok]
  show ?thesis
    using example_config_ranges_ok
      t [of "\<lparr>key_id = 5, owner = 0\<rparr>" 0 0]
      t [of "\<lparr>key_id = 0x40000000, owner = 0\<rparr>" 1 0]
      t [of "\<lparr>key_id = 0x40000000, owner = 0\<rparr>" 0 1]
      t [of "\<lparr>key_id = 0x7ffffffd, owner = 0\<rparr>" 0 1]
      t [of "\<lparr>key_id = 0x7ffffffd, owner = 0\<rparr>" 1 0]
      t [of "\<lparr>key_id = 0, owner = 0\<rparr>" 1 1]
      t [of "\<lparr>key_id = 0x80000000, owner = 0\<rparr>" 1 1]
    by (simp add: example_config_def)
qed

text \<open>
  Claim C10. The vendor test of \<^verbatim>\<open>psa_validate_key_id\<close> stops strictly below the
  volatile range: an identifier of the volatile range is refused with
  \<^verbatim>\<open>PSA_ERROR_INVALID_HANDLE\<close> when \<^verbatim>\<open>vendor_ok\<close> is 1 and \<^verbatim>\<open>volatile_ok\<close> is 0,
  although it is not below \<^verbatim>\<open>PSA_KEY_ID_VENDOR_MIN\<close>; whatever \<^verbatim>\<open>vendor_ok\<close> is, it is
  accepted exactly when \<^verbatim>\<open>volatile_ok\<close> is set.
\<close>

theorem validate_key_id_volatile_gate:
  assumes "key_id_ranges_ok cfg" and "psa_key_id_is_volatile cfg (key_id key)"
  shows "psa_validate_key_id cfg key 1 0 = PSA_ERROR_INVALID_HANDLE \<and>
         PSA_KEY_ID_VENDOR_MIN cfg \<le> key_id key \<and>
         psa_validate_key_id cfg key vendor_ok volatile_ok =
           (if volatile_ok \<noteq> 0 then PSA_SUCCESS else PSA_ERROR_INVALID_HANDLE)"
  using assms
  by (auto simp: psa_validate_key_id_def key_id_ranges_ok_def psa_key_id_is_volatile_def
      MBEDTLS_SVC_KEY_ID_GET_KEY_ID_def Let_def)

theorem validate_key_id_volatile_gate_witness:
  "key_id_ranges_ok example_config \<and>
   psa_key_id_is_volatile example_config (key_id \<lparr>key_id = 0x7ffffffe, owner = 0\<rparr>) \<and>
   psa_validate_key_id example_config \<lparr>key_id = 0x7ffffffe, owner = 0\<rparr> 1 0 =
     PSA_ERROR_INVALID_HANDLE \<and>
   PSA_KEY_ID_VENDOR_MIN example_config \<le> 0x7ffffffe \<and>
   psa_validate_key_id example_config \<lparr>key_id = 0x7ffffffe, owner = 0\<rparr> 0 1 = PSA_SUCCESS"
proof -
  have v: "psa_key_id_is_volatile example_config (key_id \<lparr>key_id = 0x7ffffffe, owner = 0\<rparr>)"
    by (simp add: psa_key_id_is_volatile_def example_config_def)
  show ?thesis
    using example_config_ranges_ok v
      validate_key_id_volatile_gate [OF example_config_ranges_ok v, of 0 1]
    by simp
qed

lemma table_size_bound:
  "volatile_range_is_table cfg g \<Longrightarrow> PSA_KEY_SLOT_COUNT g \<le> 2 ^ 32"
proof -
  assume a: "volatile_range_is_table cfg g"
  have "unat (PSA_KEY_ID_VOLATILE_MAX cfg) < 2 ^ 32"
    using unsigned_less [of "PSA_KEY_ID_VOLATILE_MAX cfg"] by simp
  with a show ?thesis by (simp add: volatile_range_is_table_def)
qed

lemma unat_slot_index:
  assumes "volatile_range_is_table cfg g" and "i < PSA_KEY_SLOT_COUNT g"
  shows "unat (of_nat i :: 32 word) = i"
proof -
  from assms table_size_bound [OF assms(1)] have "i < 2 ^ 32" by simp
  then show ?thesis by (simp add: unat_of_nat)
qed

lemma unat_volatile_id:
  assumes "volatile_range_is_table cfg g" and "i < PSA_KEY_SLOT_COUNT g"
  shows "unat (PSA_KEY_ID_VOLATILE_MIN cfg + of_nat i) = unat (PSA_KEY_ID_VOLATILE_MIN cfg) + i"
proof -
  have "unat (PSA_KEY_ID_VOLATILE_MAX cfg) < 2 ^ 32"
    using unsigned_less [of "PSA_KEY_ID_VOLATILE_MAX cfg"] by simp
  with assms have "unat (PSA_KEY_ID_VOLATILE_MIN cfg) + unat (of_nat i :: 32 word) < 2 ^ LENGTH(32)"
    by (simp add: unat_slot_index [OF assms] volatile_range_is_table_def)
  then have "unat (PSA_KEY_ID_VOLATILE_MIN cfg + of_nat i) =
      unat (PSA_KEY_ID_VOLATILE_MIN cfg) + unat (of_nat i :: 32 word)"
    by (simp only: unat_add_lem)
  then show ?thesis by (simp add: unat_slot_index [OF assms])
qed

lemma volatile_id_is_volatile:
  assumes "volatile_range_is_table cfg g" and "i < PSA_KEY_SLOT_COUNT g"
  shows "psa_key_id_is_volatile cfg (PSA_KEY_ID_VOLATILE_MIN cfg + of_nat i)"
  using assms unat_volatile_id [OF assms]
  by (simp add: psa_key_id_is_volatile_def word_le_nat_alt volatile_range_is_table_def)

lemma volatile_id_index:
  assumes "volatile_range_is_table cfg g" and "i < PSA_KEY_SLOT_COUNT g"
  shows "unat (PSA_KEY_ID_VOLATILE_MIN cfg + of_nat i - PSA_KEY_ID_VOLATILE_MIN cfg) = i"
  by (simp add: unat_slot_index [OF assms])

lemma volatile_id_inj:
  assumes "volatile_range_is_table cfg g" and "i < PSA_KEY_SLOT_COUNT g"
    and "j < PSA_KEY_SLOT_COUNT g"
    and "PSA_KEY_ID_VOLATILE_MIN cfg + of_nat i = PSA_KEY_ID_VOLATILE_MIN cfg + of_nat j"
  shows "i = j"
proof -
  from assms(4) have "(of_nat i :: 32 word) = of_nat j" by simp
  then have "unat (of_nat i :: 32 word) = unat (of_nat j :: 32 word)" by simp
  then show ?thesis
    by (simp add: unat_slot_index [OF assms(1,2)] unat_slot_index [OF assms(1,3)])
qed

lemma volatile_id_not_null:
  assumes "key_id_ranges_ok cfg" and "psa_key_id_is_volatile cfg (key_id v)"
  shows "v \<noteq> null_key_id"
proof
  assume "v = null_key_id"
  then have "key_id v = 0" by (simp add: null_key_id_def)
  with assms show False
    by (auto simp: key_id_ranges_ok_def psa_key_id_is_volatile_def)
qed

lemma wipe_all_count [simp]:
  "PSA_KEY_SLOT_COUNT (psa_wipe_all_key_slots g) = PSA_KEY_SLOT_COUNT g"
  by (simp add: wipe_all_slots) (simp add: PSA_KEY_SLOT_COUNT_def)

subsection \<open>Search\<close>

text \<open>
  Claim C5. When the volatile range has one identifier per slot, the search for a
  volatile identifier \<open>v\<close> reads the single slot of index \<open>v - PSA_KEY_ID_VOLATILE_MIN\<close>,
  which is inside the table: it succeeds, with that slot, exactly when the slot stores
  \<open>v\<close>, and otherwise answers \<^verbatim>\<open>PSA_ERROR_DOES_NOT_EXIST\<close> and leaves \<^verbatim>\<open>*p_slot\<close> alone.
  After \<^verbatim>\<open>psa_wipe_all_key_slots\<close> the search for every volatile identifier answers
  \<^verbatim>\<open>PSA_ERROR_DOES_NOT_EXIST\<close> (the all-zero identifier is not volatile).
\<close>

theorem search_volatile_direct:
  assumes "volatile_range_is_table cfg g" and "psa_key_id_is_volatile cfg (key_id v)"
  shows "psa_search_key_in_slots cfg v p g =
           Some (if attr_id (attr (key_slots g ! unat (key_id v - PSA_KEY_ID_VOLATILE_MIN cfg))) = v
                 then (PSA_SUCCESS, Some (unat (key_id v - PSA_KEY_ID_VOLATILE_MIN cfg)), g)
                 else (PSA_ERROR_DOES_NOT_EXIST, p, g)) \<and>
         unat (key_id v - PSA_KEY_ID_VOLATILE_MIN cfg) < PSA_KEY_SLOT_COUNT g \<and>
         (key_id_ranges_ok cfg \<longrightarrow>
            psa_search_key_in_slots cfg v p (psa_wipe_all_key_slots g) =
              Some (PSA_ERROR_DOES_NOT_EXIST, p, psa_wipe_all_key_slots g))"
proof -
  let ?i = "unat (key_id v - PSA_KEY_ID_VOLATILE_MIN cfg)"
  let ?w = "psa_wipe_all_key_slots g"
  have i: "?i < PSA_KEY_SLOT_COUNT g"
    using assms by (rule volatile_index_in_table)
  have direct: "psa_search_key_in_slots cfg v p g =
      Some (if attr_id (attr (key_slots g ! ?i)) = v then (PSA_SUCCESS, Some ?i, g)
            else (PSA_ERROR_DOES_NOT_EXIST, p, g))"
    using assms(2) i by (rule search_volatile)
  have wiped: "psa_search_key_in_slots cfg v p ?w = Some (PSA_ERROR_DOES_NOT_EXIST, p, ?w)"
    if ok: "key_id_ranges_ok cfg"
  proof -
    have iw: "?i < PSA_KEY_SLOT_COUNT ?w" using i by simp
    have "key_slots ?w ! ?i = empty_slot"
      using i by (simp add: wipe_all_slots)
    then have "attr_id (attr (key_slots ?w ! ?i)) \<noteq> v"
      using volatile_id_not_null [OF ok assms(2)] by (auto simp: empty_slot_def)
    with search_volatile [OF assms(2) iw, of p] show ?thesis by simp
  qed
  from i direct wiped show ?thesis by blast
qed

lemma example_table_ok: "volatile_range_is_table example_config scenario_table"
  by (simp add: volatile_range_is_table_def example_config_def scenario_table_def
      PSA_KEY_SLOT_COUNT_def)

theorem search_volatile_direct_witness:
  "volatile_range_is_table example_config scenario_table \<and>
   psa_key_id_is_volatile example_config (key_id \<lparr>key_id = 0x7ffffffd, owner = 0\<rparr>) \<and>
   key_id_ranges_ok example_config \<and>
   psa_search_key_in_slots example_config \<lparr>key_id = 0x7ffffffd, owner = 0\<rparr> None scenario_table =
     Some (PSA_SUCCESS, Some 1, scenario_table) \<and>
   psa_search_key_in_slots example_config \<lparr>key_id = 0x7ffffffd, owner = 0\<rparr> None
       (psa_wipe_all_key_slots scenario_table) =
     Some (PSA_ERROR_DOES_NOT_EXIST, None, psa_wipe_all_key_slots scenario_table)"
proof -
  have v: "psa_key_id_is_volatile example_config (key_id \<lparr>key_id = 0x7ffffffd, owner = 0\<rparr>)"
    by (simp add: psa_key_id_is_volatile_def example_config_def)
  show ?thesis
    using example_table_ok v example_config_ranges_ok
      search_volatile_direct [OF example_table_ok v, of None]
    by (simp add: example_config_def scenario_table_def mk_slot_def)
qed

lemma get_empty_scan_id:
  "get_empty_scan cfg slots v n = (PSA_SUCCESS, a, s) \<Longrightarrow>
     \<exists>i<n. s = Some i \<and> a = Some (PSA_KEY_ID_VOLATILE_MIN cfg + of_nat i) \<and>
            \<not> psa_is_key_slot_occupied cfg (slots ! i)"
  by (induction n) (auto split: if_splits simp: less_Suc_eq)

lemma get_empty_scan_success_any:
  "get_empty_scan cfg slots v n = (PSA_SUCCESS, a, s) \<Longrightarrow>
   get_empty_scan cfg slots v' n = (PSA_SUCCESS, a, s)"
  by (induction n) (auto split: if_splits)

lemma get_empty_success:
  "psa_get_empty_key_slot cfg v p g = (PSA_SUCCESS, a, s, g') \<Longrightarrow>
     \<exists>i<PSA_KEY_SLOT_COUNT g. s = Some i \<and> a = Some (PSA_KEY_ID_VOLATILE_MIN cfg + of_nat i) \<and>
            \<not> psa_is_key_slot_occupied cfg (key_slots g ! i) \<and> g' = g"
  by (auto simp: psa_get_empty_key_slot_def split: if_splits prod.splits
      dest!: get_empty_scan_id)

lemma get_empty_frame:
  "psa_get_empty_key_slot cfg v p g = (st, a, s, g') \<Longrightarrow> g' = g"
  by (auto simp: psa_get_empty_key_slot_def split: if_splits prod.splits)


lemma get_empty_scenario:
  "psa_get_empty_key_slot example_config None None scenario_table =
     (PSA_SUCCESS, Some 0x7fffffff, Some 3, scenario_table)"
  by (simp add: psa_get_empty_key_slot_def PSA_KEY_SLOT_COUNT_def scenario_table_def
      example_config_def slot_is_occupied_def empty_slot_def mk_slot_def null_key_id_def)

lemma get_empty_closed:
  "psa_get_empty_key_slot example_config None None closed_table =
     (PSA_SUCCESS, Some 0x7fffffff, Some 3, closed_table)"
  by (simp add: psa_get_empty_key_slot_def PSA_KEY_SLOT_COUNT_def closed_table_def
      example_config_def slot_is_occupied_def empty_slot_def mk_slot_def null_key_id_def)

lemma full_table_occupied:
  "i < PSA_KEY_SLOT_COUNT full_table \<Longrightarrow>
   psa_is_key_slot_occupied example_config (key_slots full_table ! i)"
  by (auto simp: PSA_KEY_SLOT_COUNT_def full_table_def example_config_def slot_is_occupied_def
      mk_slot_def null_key_id_def less_Suc_eq)

lemma full_table_ok: "volatile_range_is_table example_config full_table"
  by (simp add: volatile_range_is_table_def example_config_def full_table_def
      PSA_KEY_SLOT_COUNT_def)

lemma fresh_table_ok: "volatile_range_is_table example_config fresh_table"
  by (simp add: volatile_range_is_table_def example_config_def fresh_table_def
      PSA_KEY_SLOT_COUNT_def)

subsection \<open>Allocation\<close>

text \<open>
  Claim C6. \<^verbatim>\<open>psa_get_empty_key_slot\<close> fails with \<^verbatim>\<open>PSA_ERROR_BAD_STATE\<close>, writing
  nothing, when the table is not initialised. Otherwise, if some slot is unoccupied, it
  returns the unoccupied slot of highest index \<open>i\<close> together with the identifier
  \<open>PSA_KEY_ID_VOLATILE_MIN + i\<close>; when the volatile range has one identifier per slot
  this identifier is volatile and its direct index is \<open>i\<close> again. If every slot is
  occupied it fails with \<^verbatim>\<open>PSA_ERROR_INSUFFICIENT_MEMORY\<close> and sets \<^verbatim>\<open>*p_slot\<close> to
  \<^verbatim>\<open>NULL\<close>. Two calls on tables of the same size that return the same identifier
  return the same slot index: distinct slots never get one identifier.
\<close>

theorem get_empty_key_slot_allocates:
  assumes "volatile_range_is_table cfg g"
  shows "(\<not> key_slots_initialized g \<longrightarrow>
            psa_get_empty_key_slot cfg v p g = (PSA_ERROR_BAD_STATE, v, p, g)) \<and>
         (key_slots_initialized g \<and>
          (\<exists>i<PSA_KEY_SLOT_COUNT g. \<not> psa_is_key_slot_occupied cfg (key_slots g ! i)) \<longrightarrow>
            (\<exists>i<PSA_KEY_SLOT_COUNT g.
               \<not> psa_is_key_slot_occupied cfg (key_slots g ! i) \<and>
               (\<forall>j. i < j \<and> j < PSA_KEY_SLOT_COUNT g \<longrightarrow>
                    psa_is_key_slot_occupied cfg (key_slots g ! j)) \<and>
               psa_get_empty_key_slot cfg v p g =
                 (PSA_SUCCESS, Some (PSA_KEY_ID_VOLATILE_MIN cfg + of_nat i), Some i, g) \<and>
               psa_key_id_is_volatile cfg (PSA_KEY_ID_VOLATILE_MIN cfg + of_nat i) \<and>
               unat (PSA_KEY_ID_VOLATILE_MIN cfg + of_nat i - PSA_KEY_ID_VOLATILE_MIN cfg) = i)) \<and>
         (key_slots_initialized g \<and>
          (\<forall>i<PSA_KEY_SLOT_COUNT g. psa_is_key_slot_occupied cfg (key_slots g ! i)) \<longrightarrow>
            psa_get_empty_key_slot cfg v p g = (PSA_ERROR_INSUFFICIENT_MEMORY, v, None, g)) \<and>
         (PSA_KEY_SLOT_COUNT g2 = PSA_KEY_SLOT_COUNT g \<and>
          psa_get_empty_key_slot cfg v p g = (PSA_SUCCESS, Some a, Some k, g) \<and>
          psa_get_empty_key_slot cfg v2 p2 g2 = (PSA_SUCCESS, Some a, Some l, g2) \<longrightarrow>
            k = l)"
proof (intro conjI impI)
  assume "\<not> key_slots_initialized g"
  then show "psa_get_empty_key_slot cfg v p g = (PSA_ERROR_BAD_STATE, v, p, g)"
    by (simp add: psa_get_empty_key_slot_def)
next
  assume a: "key_slots_initialized g \<and>
    (\<exists>i<PSA_KEY_SLOT_COUNT g. \<not> psa_is_key_slot_occupied cfg (key_slots g ! i))"
  then obtain i where i: "i < PSA_KEY_SLOT_COUNT g"
    "\<not> psa_is_key_slot_occupied cfg (key_slots g ! i)"
    "\<forall>j. i < j \<and> j < PSA_KEY_SLOT_COUNT g \<longrightarrow> psa_is_key_slot_occupied cfg (key_slots g ! j)"
    "get_empty_scan cfg (key_slots g) v (PSA_KEY_SLOT_COUNT g) =
       (PSA_SUCCESS, Some (PSA_KEY_ID_VOLATILE_MIN cfg + of_nat i), Some i)"
    using get_empty_scan_free [of "PSA_KEY_SLOT_COUNT g" cfg "key_slots g" v] by blast
  from a i(4) have "psa_get_empty_key_slot cfg v p g =
      (PSA_SUCCESS, Some (PSA_KEY_ID_VOLATILE_MIN cfg + of_nat i), Some i, g)"
    by (simp add: psa_get_empty_key_slot_def)
  with i(1-3) volatile_id_is_volatile [OF assms i(1)] volatile_id_index [OF assms i(1)]
  show "\<exists>i<PSA_KEY_SLOT_COUNT g.
      \<not> psa_is_key_slot_occupied cfg (key_slots g ! i) \<and>
      (\<forall>j. i < j \<and> j < PSA_KEY_SLOT_COUNT g \<longrightarrow> psa_is_key_slot_occupied cfg (key_slots g ! j)) \<and>
      psa_get_empty_key_slot cfg v p g =
        (PSA_SUCCESS, Some (PSA_KEY_ID_VOLATILE_MIN cfg + of_nat i), Some i, g) \<and>
      psa_key_id_is_volatile cfg (PSA_KEY_ID_VOLATILE_MIN cfg + of_nat i) \<and>
      unat (PSA_KEY_ID_VOLATILE_MIN cfg + of_nat i - PSA_KEY_ID_VOLATILE_MIN cfg) = i"
    by blast
next
  assume "key_slots_initialized g \<and>
    (\<forall>i<PSA_KEY_SLOT_COUNT g. psa_is_key_slot_occupied cfg (key_slots g ! i))"
  then show "psa_get_empty_key_slot cfg v p g = (PSA_ERROR_INSUFFICIENT_MEMORY, v, None, g)"
    by (simp add: psa_get_empty_key_slot_def get_empty_scan_full)
next
  assume h: "PSA_KEY_SLOT_COUNT g2 = PSA_KEY_SLOT_COUNT g \<and>
    psa_get_empty_key_slot cfg v p g = (PSA_SUCCESS, Some a, Some k, g) \<and>
    psa_get_empty_key_slot cfg v2 p2 g2 = (PSA_SUCCESS, Some a, Some l, g2)"
  from h get_empty_success [of cfg v p g "Some a" "Some k" g]
  have k: "k < PSA_KEY_SLOT_COUNT g" "a = PSA_KEY_ID_VOLATILE_MIN cfg + of_nat k" by auto
  from h get_empty_success [of cfg v2 p2 g2 "Some a" "Some l" g2]
  have l: "l < PSA_KEY_SLOT_COUNT g" "a = PSA_KEY_ID_VOLATILE_MIN cfg + of_nat l" by auto
  from k l show "k = l"
    using volatile_id_inj [OF assms, of k l] by simp
qed

theorem get_empty_key_slot_allocates_witness:
  "volatile_range_is_table example_config scenario_table \<and>
   psa_get_empty_key_slot example_config None None fresh_table =
     (PSA_ERROR_BAD_STATE, None, None, fresh_table) \<and>
   psa_get_empty_key_slot example_config None None scenario_table =
     (PSA_SUCCESS, Some 0x7fffffff, Some 3, scenario_table) \<and>
   psa_key_id_is_volatile example_config 0x7fffffff \<and>
   PSA_KEY_SLOT_COUNT closed_table = PSA_KEY_SLOT_COUNT scenario_table \<and>
   psa_get_empty_key_slot example_config None None closed_table =
     (PSA_SUCCESS, Some 0x7fffffff, Some 3, closed_table) \<and>
   psa_get_empty_key_slot example_config None None full_table =
     (PSA_ERROR_INSUFFICIENT_MEMORY, None, None, full_table)"
proof -
  have bad: "psa_get_empty_key_slot example_config None None fresh_table =
      (PSA_ERROR_BAD_STATE, None, None, fresh_table)"
    using get_empty_key_slot_allocates [OF fresh_table_ok, of None None]
    by (simp add: fresh_table_def)
  have full: "psa_get_empty_key_slot example_config None None full_table =
      (PSA_ERROR_INSUFFICIENT_MEMORY, None, None, full_table)"
    using get_empty_key_slot_allocates [OF full_table_ok, of None None] full_table_occupied
    by (simp add: full_table_def)
  have count: "PSA_KEY_SLOT_COUNT closed_table = PSA_KEY_SLOT_COUNT scenario_table"
    by (simp add: PSA_KEY_SLOT_COUNT_def closed_table_def scenario_table_def)
  have vol: "psa_key_id_is_volatile example_config 0x7fffffff"
    by (simp add: psa_key_id_is_volatile_def example_config_def)
  have free: "3 < PSA_KEY_SLOT_COUNT scenario_table \<and>
      \<not> psa_is_key_slot_occupied example_config (key_slots scenario_table ! 3)"
    by (simp add: PSA_KEY_SLOT_COUNT_def scenario_table_def example_config_def
        slot_is_occupied_def empty_slot_def)
  have init: "key_slots_initialized scenario_table"
    by (simp add: scenario_table_def)
  from free init
    get_empty_key_slot_allocates [OF example_table_ok, where v = None and p = None
      and ?g2.0 = closed_table and ?v2.0 = None and ?p2.0 = None and a = "0x7fffffff"
      and k = 3 and l = 3]
  have "\<exists>i. psa_get_empty_key_slot example_config None None scenario_table =
      (PSA_SUCCESS, Some (PSA_KEY_ID_VOLATILE_MIN example_config + of_nat i), Some i,
       scenario_table)"
    by blast
  with example_table_ok bad full count vol get_empty_scenario get_empty_closed
  show ?thesis by simp
qed

text \<open>
  Claim C9. \<^verbatim>\<open>psa_get_empty_key_slot\<close> leaves the table as it is: the slot it returns
  on success is still unoccupied afterwards, and a second call on the resulting table,
  with fresh output variables or with the ones the first call has written, returns the
  same status, the same identifier and the same slot.
\<close>

theorem get_empty_key_slot_idempotent:
  assumes "psa_get_empty_key_slot cfg v p g = (st, a, s, g')"
  shows "g' = g \<and>
         psa_get_empty_key_slot cfg v p g' = (st, a, s, g') \<and>
         psa_get_empty_key_slot cfg a s g' = (st, a, s, g') \<and>
         (st = PSA_SUCCESS \<longrightarrow>
            (\<exists>i<PSA_KEY_SLOT_COUNT g'. s = Some i \<and>
               \<not> psa_is_key_slot_occupied cfg (key_slots g' ! i)))"
proof -
  have g: "g' = g" using assms by (rule get_empty_frame)
  have again: "psa_get_empty_key_slot cfg a s g = (st, a, s, g)"
  proof (cases "key_slots_initialized g")
    case False
    with assms show ?thesis by (auto simp: psa_get_empty_key_slot_def)
  next
    case True
    show ?thesis
    proof (cases "\<forall>i<PSA_KEY_SLOT_COUNT g. psa_is_key_slot_occupied cfg (key_slots g ! i)")
      case full: True
      with True assms show ?thesis
        by (auto simp: psa_get_empty_key_slot_def get_empty_scan_full)
    next
      case False
      then have ex: "\<exists>i<PSA_KEY_SLOT_COUNT g. \<not> psa_is_key_slot_occupied cfg (key_slots g ! i)"
        by blast
      from get_empty_scan_free [OF ex, of v] True assms
      have "st = PSA_SUCCESS"
        "get_empty_scan cfg (key_slots g) v (PSA_KEY_SLOT_COUNT g) = (PSA_SUCCESS, a, s)"
        by (auto simp: psa_get_empty_key_slot_def)
      with True get_empty_scan_success_any [of cfg "key_slots g" v "PSA_KEY_SLOT_COUNT g" a s a]
      show ?thesis
        by (simp add: psa_get_empty_key_slot_def)
    qed
  qed
  have free: "\<exists>i<PSA_KEY_SLOT_COUNT g. s = Some i \<and>
      \<not> psa_is_key_slot_occupied cfg (key_slots g ! i)" if "st = PSA_SUCCESS"
    using assms that get_empty_success [of cfg v p g a s g'] by blast
  from g assms again free show ?thesis by simp
qed

theorem get_empty_key_slot_idempotent_witness:
  "psa_get_empty_key_slot example_config None None scenario_table =
     (PSA_SUCCESS, Some 0x7fffffff, Some 3, scenario_table) \<and>
   psa_get_empty_key_slot example_config (Some 0x7fffffff) (Some 3) scenario_table =
     (PSA_SUCCESS, Some 0x7fffffff, Some 3, scenario_table) \<and>
   \<not> psa_is_key_slot_occupied example_config (key_slots scenario_table ! 3)"
  using get_empty_scenario get_empty_key_slot_idempotent [OF get_empty_scenario]
  by simp

lemma search_hit:
  assumes "psa_search_key_in_slots cfg key p g = Some (PSA_SUCCESS, s, g')"
  shows "\<exists>i<PSA_KEY_SLOT_COUNT g. s = Some i \<and> attr_id (attr (key_slots g ! i)) = key \<and> g' = g"
proof (cases "psa_validate_key_id cfg key 1 1 = PSA_SUCCESS")
  case False
  with assms show ?thesis by (simp add: psa_search_key_in_slots_def Let_def)
next
  case valid: True
  show ?thesis
  proof (cases "psa_key_id_is_volatile cfg (key_id key)")
    case True
    with valid assms show ?thesis
      by (auto simp: psa_search_key_in_slots_def Let_def MBEDTLS_SVC_KEY_ID_GET_KEY_ID_def
          key_id_equal_iff split: if_splits)
  next
    case False
    obtain st i where scan: "search_scan key (key_slots g) (PSA_KEY_SLOT_COUNT g) = (st, i)"
      by (cases "search_scan key (key_slots g) (PSA_KEY_SLOT_COUNT g)")
    with False valid assms have "st = PSA_SUCCESS" "s = Some i" "g' = g"
      by (auto simp: psa_search_key_in_slots_def Let_def MBEDTLS_SVC_KEY_ID_GET_KEY_ID_def
          split: if_splits)
    with scan search_scan_hit [of key "key_slots g" "PSA_KEY_SLOT_COUNT g" i]
    show ?thesis by simp
  qed
qed

lemma wipe_slot_table:
  "key_slots (snd (psa_wipe_key_slot i g)) = (key_slots g)[i := empty_slot]"
  by (simp add: psa_wipe_key_slot_def)

subsection \<open>Purging and closing\<close>

text \<open>
  Claim C7. For a resident key (the search finds it in slot \<open>i\<close>),
  \<^verbatim>\<open>psa_purge_key\<close> returns \<^verbatim>\<open>PSA_SUCCESS\<close> and the table as it was, hence the slot's
  identifier, lifetime and key material, when the slot's lifetime is
  \<^verbatim>\<open>PSA_KEY_LIFETIME_VOLATILE\<close>; for any other lifetime (persistent or external) it
  wipes slot \<open>i\<close>, which is the empty slot afterwards, and returns the status of the
  wipe. The function has no access to the storage backend.
\<close>

theorem purge_key_resident:
  assumes "psa_search_key_in_slots cfg key None g = Some (PSA_SUCCESS, Some i, g)"
  shows "i < PSA_KEY_SLOT_COUNT g \<and> attr_id (attr (key_slots g ! i)) = key \<and>
         (attr_lifetime (attr (key_slots g ! i)) = PSA_KEY_LIFETIME_VOLATILE cfg \<longrightarrow>
            psa_purge_key cfg key g = Some (PSA_SUCCESS, g)) \<and>
         (attr_lifetime (attr (key_slots g ! i)) \<noteq> PSA_KEY_LIFETIME_VOLATILE cfg \<longrightarrow>
            psa_purge_key cfg key g = Some (psa_wipe_key_slot i g) \<and>
            key_slots (snd (psa_wipe_key_slot i g)) = (key_slots g)[i := empty_slot] \<and>
            key_slots (snd (psa_wipe_key_slot i g)) ! i = empty_slot)"
proof -
  from search_hit [OF assms] have i: "i < PSA_KEY_SLOT_COUNT g"
    "attr_id (attr (key_slots g ! i)) = key" by auto
  then have "(key_slots g)[i := empty_slot] ! i = empty_slot"
    by (simp add: PSA_KEY_SLOT_COUNT_def)
  with i assms show ?thesis
    by (simp add: psa_purge_key_def wipe_slot_table)
qed

lemma search_scenario_volatile:
  "psa_search_key_in_slots example_config \<lparr>key_id = 0x7ffffffd, owner = 0\<rparr> None scenario_table =
     Some (PSA_SUCCESS, Some 1, scenario_table)"
  by (simp add: psa_search_key_in_slots_def psa_validate_key_id_def psa_key_id_is_volatile_def
      MBEDTLS_SVC_KEY_ID_GET_KEY_ID_def mbedtls_svc_key_id_equal_def PSA_KEY_SLOT_COUNT_def
      example_config_def scenario_table_def mk_slot_def)

lemma search_scenario_persistent:
  "psa_search_key_in_slots example_config \<lparr>key_id = 50, owner = 0\<rparr> None scenario_table =
     Some (PSA_SUCCESS, Some 2, scenario_table)"
  by (simp add: psa_search_key_in_slots_def psa_validate_key_id_def psa_key_id_is_volatile_def
      MBEDTLS_SVC_KEY_ID_GET_KEY_ID_def mbedtls_svc_key_id_equal_def PSA_KEY_SLOT_COUNT_def
      example_config_def scenario_table_def mk_slot_def empty_slot_def null_key_id_def)

theorem purge_key_resident_witness:
  "psa_search_key_in_slots example_config \<lparr>key_id = 0x7ffffffd, owner = 0\<rparr> None scenario_table =
     Some (PSA_SUCCESS, Some 1, scenario_table) \<and>
   attr_lifetime (attr (key_slots scenario_table ! 1)) = PSA_KEY_LIFETIME_VOLATILE example_config \<and>
   psa_purge_key example_config \<lparr>key_id = 0x7ffffffd, owner = 0\<rparr> scenario_table =
     Some (PSA_SUCCESS, scenario_table) \<and>
   psa_search_key_in_slots example_config \<lparr>key_id = 50, owner = 0\<rparr> None scenario_table =
     Some (PSA_SUCCESS, Some 2, scenario_table) \<and>
   attr_lifetime (attr (key_slots scenario_table ! 2)) \<noteq> PSA_KEY_LIFETIME_VOLATILE example_config \<and>
   psa_purge_key example_config \<lparr>key_id = 50, owner = 0\<rparr> scenario_table =
     Some (PSA_SUCCESS,
       \<lparr>key_slots = [mk_slot 0 0x7ffffffc [1, 2], mk_slot 0 0x7ffffffd [3], empty_slot, empty_slot],
        key_slots_initialized = True\<rparr>)"
proof -
  have v: "attr_lifetime (attr (key_slots scenario_table ! 1)) =
      PSA_KEY_LIFETIME_VOLATILE example_config"
    by (simp add: scenario_table_def mk_slot_def example_config_def)
  have p: "attr_lifetime (attr (key_slots scenario_table ! 2)) \<noteq>
      PSA_KEY_LIFETIME_VOLATILE example_config"
    by (simp add: scenario_table_def mk_slot_def example_config_def)
  have w: "psa_wipe_key_slot 2 scenario_table =
      (PSA_SUCCESS,
       \<lparr>key_slots = [mk_slot 0 0x7ffffffc [1, 2], mk_slot 0 0x7ffffffd [3], empty_slot, empty_slot],
        key_slots_initialized = True\<rparr>)"
    by (simp add: psa_wipe_key_slot_def scenario_table_def)
  from v p w search_scenario_volatile search_scenario_persistent
    purge_key_resident [OF search_scenario_volatile]
    purge_key_resident [OF search_scenario_persistent]
  show ?thesis by simp
qed

text \<open>
  Claim C3, amended. \<^verbatim>\<open>psa_close_key\<close> on a null handle returns \<^verbatim>\<open>PSA_SUCCESS\<close> and
  leaves the table unchanged. On a handle that is not null and that the search does not
  find, it leaves the table unchanged and returns the status of the search, not
  \<^verbatim>\<open>PSA_SUCCESS\<close>: for a volatile handle whose slot no longer stores it (a handle
  already closed) the status is \<^verbatim>\<open>PSA_ERROR_DOES_NOT_EXIST\<close>. On a handle whose slot is
  resident it wipes the slot, whatever the lifetime, and returns the status of the wipe.
\<close>

theorem close_key_cases:
  "(psa_key_handle_is_null cfg handle \<longrightarrow> psa_close_key cfg handle g = Some (PSA_SUCCESS, g)) \<and>
   (\<not> psa_key_handle_is_null cfg handle \<and>
    psa_search_key_in_slots cfg handle None g = Some (st, s, g) \<and> st \<noteq> PSA_SUCCESS \<longrightarrow>
      psa_close_key cfg handle g = Some (st, g)) \<and>
   (\<not> psa_key_handle_is_null cfg handle \<and> volatile_range_is_table cfg g \<and>
    psa_key_id_is_volatile cfg (key_id handle) \<and>
    attr_id (attr (key_slots g ! unat (key_id handle - PSA_KEY_ID_VOLATILE_MIN cfg))) \<noteq> handle \<longrightarrow>
      psa_close_key cfg handle g = Some (PSA_ERROR_DOES_NOT_EXIST, g)) \<and>
   (\<not> psa_key_handle_is_null cfg handle \<and>
    psa_search_key_in_slots cfg handle None g = Some (PSA_SUCCESS, Some i, g) \<longrightarrow>
      i < PSA_KEY_SLOT_COUNT g \<and>
      psa_close_key cfg handle g = Some (psa_wipe_key_slot i g) \<and>
      key_slots (snd (psa_wipe_key_slot i g)) = (key_slots g)[i := empty_slot] \<and>
      key_slots (snd (psa_wipe_key_slot i g)) ! i = empty_slot)"
proof -
  have null: "psa_close_key cfg handle g = Some (PSA_SUCCESS, g)"
    if "psa_key_handle_is_null cfg handle"
    using that by (simp add: psa_close_key_def)
  have miss: "psa_close_key cfg handle g = Some (st, g)"
    if "\<not> psa_key_handle_is_null cfg handle \<and>
      psa_search_key_in_slots cfg handle None g = Some (st, s, g) \<and> st \<noteq> PSA_SUCCESS"
    using that by (simp add: psa_close_key_def)
  have closed: "psa_close_key cfg handle g = Some (PSA_ERROR_DOES_NOT_EXIST, g)"
    if a: "\<not> psa_key_handle_is_null cfg handle \<and> volatile_range_is_table cfg g \<and>
      psa_key_id_is_volatile cfg (key_id handle) \<and>
      attr_id (attr (key_slots g ! unat (key_id handle - PSA_KEY_ID_VOLATILE_MIN cfg))) \<noteq> handle"
  proof -
    from a have "unat (key_id handle - PSA_KEY_ID_VOLATILE_MIN cfg) < PSA_KEY_SLOT_COUNT g"
      by (simp add: volatile_index_in_table)
    with a have "psa_search_key_in_slots cfg handle None g =
        Some (PSA_ERROR_DOES_NOT_EXIST, None, g)"
      by (simp add: search_volatile)
    with a show ?thesis by (simp add: psa_close_key_def)
  qed
  have hit: "i < PSA_KEY_SLOT_COUNT g \<and>
      psa_close_key cfg handle g = Some (psa_wipe_key_slot i g) \<and>
      key_slots (snd (psa_wipe_key_slot i g)) = (key_slots g)[i := empty_slot] \<and>
      key_slots (snd (psa_wipe_key_slot i g)) ! i = empty_slot"
    if a: "\<not> psa_key_handle_is_null cfg handle \<and>
      psa_search_key_in_slots cfg handle None g = Some (PSA_SUCCESS, Some i, g)"
  proof -
    from a search_hit [of cfg handle None g "Some i" g] have i: "i < PSA_KEY_SLOT_COUNT g"
      by simp
    then have "(key_slots g)[i := empty_slot] ! i = empty_slot"
      by (simp add: PSA_KEY_SLOT_COUNT_def)
    with a i show ?thesis by (simp add: psa_close_key_def wipe_slot_table)
  qed
  from null miss closed hit show ?thesis by blast
qed

lemma handle_not_null:
  "\<not> psa_key_handle_is_null example_config \<lparr>key_id = 0x7ffffffd, owner = 0\<rparr>"
  by (simp add: example_config_def)

lemma close_scenario:
  "psa_close_key example_config \<lparr>key_id = 0x7ffffffd, owner = 0\<rparr> scenario_table =
     Some (PSA_SUCCESS, closed_table)"
  by (simp add: psa_close_key_def handle_not_null search_scenario_volatile)
    (simp add: psa_wipe_key_slot_def scenario_table_def closed_table_def)

lemma search_closed:
  "psa_search_key_in_slots example_config \<lparr>key_id = 0x7ffffffd, owner = 0\<rparr> None closed_table =
     Some (PSA_ERROR_DOES_NOT_EXIST, None, closed_table)"
  by (simp add: psa_search_key_in_slots_def psa_validate_key_id_def psa_key_id_is_volatile_def
      MBEDTLS_SVC_KEY_ID_GET_KEY_ID_def mbedtls_svc_key_id_equal_def PSA_KEY_SLOT_COUNT_def
      example_config_def closed_table_def mk_slot_def empty_slot_def null_key_id_def)

lemma close_closed:
  "psa_close_key example_config \<lparr>key_id = 0x7ffffffd, owner = 0\<rparr> closed_table =
     Some (PSA_ERROR_DOES_NOT_EXIST, closed_table)"
  by (simp add: psa_close_key_def handle_not_null search_closed)

lemma closed_table_slot:
  "attr_id (attr (key_slots closed_table ! 1)) = null_key_id"
  by (simp add: closed_table_def empty_slot_def)

text \<open>
  Claim C3 as stated fails: closing the volatile key of slot 1 succeeds and empties the
  slot; closing the same handle again returns \<^verbatim>\<open>PSA_ERROR_DOES_NOT_EXIST\<close>.
\<close>

theorem close_key_twice_counterexample:
  "\<not> psa_key_handle_is_null example_config \<lparr>key_id = 0x7ffffffd, owner = 0\<rparr> \<and>
   psa_close_key example_config \<lparr>key_id = 0x7ffffffd, owner = 0\<rparr> scenario_table =
     Some (PSA_SUCCESS, closed_table) \<and>
   attr_id (attr (key_slots closed_table ! 1)) = null_key_id \<and>
   psa_close_key example_config \<lparr>key_id = 0x7ffffffd, owner = 0\<rparr> closed_table =
     Some (PSA_ERROR_DOES_NOT_EXIST, closed_table)"
  using closed_table_slot by (simp add: close_scenario close_closed handle_not_null)

theorem close_key_cases_witness:
  "psa_key_handle_is_null example_config null_key_id \<and>
   psa_close_key example_config null_key_id scenario_table = Some (PSA_SUCCESS, scenario_table) \<and>
   \<not> psa_key_handle_is_null example_config \<lparr>key_id = 0x7ffffffd, owner = 0\<rparr> \<and>
   psa_search_key_in_slots example_config \<lparr>key_id = 0x7ffffffd, owner = 0\<rparr> None closed_table =
     Some (PSA_ERROR_DOES_NOT_EXIST, None, closed_table) \<and>
   psa_close_key example_config \<lparr>key_id = 0x7ffffffd, owner = 0\<rparr> closed_table =
     Some (PSA_ERROR_DOES_NOT_EXIST, closed_table) \<and>
   psa_search_key_in_slots example_config \<lparr>key_id = 0x7ffffffd, owner = 0\<rparr> None scenario_table =
     Some (PSA_SUCCESS, Some 1, scenario_table) \<and>
   psa_close_key example_config \<lparr>key_id = 0x7ffffffd, owner = 0\<rparr> scenario_table =
     Some (PSA_SUCCESS, closed_table)"
proof -
  have n: "psa_key_handle_is_null example_config null_key_id"
    by (simp add: example_config_def null_key_id_def)
  note nn = handle_not_null
  have w: "psa_wipe_key_slot 1 scenario_table = (PSA_SUCCESS, closed_table)"
    by (simp add: psa_wipe_key_slot_def scenario_table_def closed_table_def)
  from n nn w search_closed search_scenario_volatile
    close_key_cases [of example_config null_key_id scenario_table]
    close_key_cases [of example_config "\<lparr>key_id = 0x7ffffffd, owner = 0\<rparr>" closed_table
      PSA_ERROR_DOES_NOT_EXIST None]
    close_key_cases [of example_config "\<lparr>key_id = 0x7ffffffd, owner = 0\<rparr>" scenario_table
      _ _ 1]
  show ?thesis by simp
qed

lemma fold_slots_by_index:
  "fold (\<lambda>slot_idx. f (xs ! slot_idx)) [0 ..< length xs] = fold f xs"
proof -
  have "fold f (map (nth xs) [0 ..< length xs]) = fold (f \<circ> nth xs) [0 ..< length xs]"
    by (rule fold_map)
  then show ?thesis by (simp add: map_nth comp_def)
qed

lemma stats_empty:
  "empty_slots (fold (get_stats_slot cfg) xs st) =
     empty_slots st + length (filter (\<lambda>s. \<not> psa_is_key_slot_occupied cfg s) xs)"
  by (induction xs arbitrary: st) (simp_all add: get_stats_slot_def Let_def)

lemma stats_volatile:
  "volatile_slots (fold (get_stats_slot cfg) xs st) =
     volatile_slots st + length (filter (is_volatile_slot cfg) xs)"
  by (induction xs arbitrary: st)
    (simp_all add: get_stats_slot_def is_volatile_slot_def Let_def)

lemma stats_persistent:
  "persistent_slots (fold (get_stats_slot cfg) xs st) =
     persistent_slots st + length (filter (is_persistent_slot cfg) xs)"
  by (induction xs arbitrary: st)
    (simp_all add: get_stats_slot_def is_persistent_slot_def Let_def)

lemma stats_external:
  "external_slots (fold (get_stats_slot cfg) xs st) =
     external_slots st + length (filter (is_external_slot cfg) xs)"
  by (induction xs arbitrary: st)
    (simp_all add: get_stats_slot_def is_external_slot_def Let_def)

lemma stats_max_internal:
  "max_open_internal_key_id (fold (get_stats_slot cfg) xs st) =
     fold max (map (\<lambda>s. key_id (attr_id (attr s))) (filter (is_persistent_slot cfg) xs))
       (max_open_internal_key_id st)"
  by (induction xs arbitrary: st)
    (auto simp: get_stats_slot_def is_persistent_slot_def Let_def
      MBEDTLS_SVC_KEY_ID_GET_KEY_ID_def max_def)

lemma stats_max_external:
  "max_open_external_key_id (fold (get_stats_slot cfg) xs st) =
     fold max (map (\<lambda>s. key_id (attr_id (attr s))) (filter (is_external_slot cfg) xs))
       (max_open_external_key_id st)"
  by (induction xs arbitrary: st)
    (auto simp: get_stats_slot_def is_external_slot_def Let_def
      MBEDTLS_SVC_KEY_ID_GET_KEY_ID_def max_def)

lemma fold_max_key_id:
  "fold max (map (\<lambda>s. key_id (attr_id (attr s))) slots) 0 = max_key_id slots"
  by (simp only: max_key_id_def Max.set_eq_fold)

lemma scenario_stats:
  "mbedtls_psa_get_stats example_config scenario_table =
     (\<lparr>volatile_slots = 2, persistent_slots = 1, external_slots = 0, empty_slots = 1,
       max_open_internal_key_id = 50, max_open_external_key_id = 0\<rparr>,
      scenario_table)"
  by (simp add: mbedtls_psa_get_stats_def PSA_KEY_SLOT_COUNT_def fold_slots_by_index)
    (simp add: scenario_table_def get_stats_slot_def example_config_def slot_is_occupied_def
      mk_slot_def empty_slot_def null_key_id_def zero_stats_def MBEDTLS_SVC_KEY_ID_GET_KEY_ID_def)

subsection \<open>Statistics\<close>

text \<open>
  Claim C8. \<^verbatim>\<open>mbedtls_psa_get_stats\<close> returns the table as it was and exactly: the
  number of unoccupied slots; the numbers of occupied slots whose lifetime is volatile,
  persistent, and neither (external); and for the persistent and for the external slots
  the maximum of their key identifiers (0 when there is none). On the table with two
  volatile keys, one persistent key of identifier 50 and one empty slot the result is
  2 volatile, 1 persistent, 0 external, 1 empty, and 50 as the maximum persistent
  identifier.
\<close>

theorem get_stats_counts:
  "mbedtls_psa_get_stats cfg g = (stats_by_category cfg (key_slots g), g) \<and>
   mbedtls_psa_get_stats example_config scenario_table =
     (\<lparr>volatile_slots = 2, persistent_slots = 1, external_slots = 0, empty_slots = 1,
       max_open_internal_key_id = 50, max_open_external_key_id = 0\<rparr>,
      scenario_table)"
proof -
  let ?st = "fold (get_stats_slot cfg) (key_slots g) zero_stats"
  have run: "mbedtls_psa_get_stats cfg g = (?st, g)"
    by (simp add: mbedtls_psa_get_stats_def PSA_KEY_SLOT_COUNT_def fold_slots_by_index)
  have zero: "volatile_slots zero_stats = 0" "persistent_slots zero_stats = 0"
    "external_slots zero_stats = 0" "empty_slots zero_stats = 0"
    "max_open_internal_key_id zero_stats = 0" "max_open_external_key_id zero_stats = 0"
    by (simp_all add: zero_stats_def)
  have "?st = stats_by_category cfg (key_slots g)"
    unfolding stats_by_category_def
    by (rule mbedtls_psa_stats_t.equality)
      (simp_all only: stats_empty stats_volatile stats_persistent stats_external
        stats_max_internal stats_max_external zero fold_max_key_id
        mbedtls_psa_stats_t.select_convs add_0 unit_eq)
  with run scenario_stats show ?thesis by (simp only:)
qed

lemma validated_not_null:
  assumes "key_id_ranges_ok cfg" and "psa_validate_key_id cfg key a b = PSA_SUCCESS"
  shows "key \<noteq> null_key_id"
proof
  assume "key = null_key_id"
  then have "key_id key = 0" by (simp add: null_key_id_def)
  with assms show False
    by (auto simp: key_id_ranges_ok_def psa_validate_key_id_def Let_def
        MBEDTLS_SVC_KEY_ID_GET_KEY_ID_def split: if_splits)
qed

lemma search_miss_valid:
  "psa_search_key_in_slots cfg key p g = Some (PSA_ERROR_DOES_NOT_EXIST, s, g') \<Longrightarrow>
   psa_validate_key_id cfg key 1 1 = PSA_SUCCESS"
  by (auto simp: psa_search_key_in_slots_def psa_validate_key_id_def Let_def split: if_splits)

lemma nth_update_cases:
  "P (xs ! j) \<Longrightarrow> P x \<Longrightarrow> P (xs[i := x] ! j)"
  by (cases "i < length xs") (auto simp: nth_list_update list_update_beyond)

lemma search_scan_update:
  assumes "fst (search_scan key slots n) = PSA_ERROR_DOES_NOT_EXIST"
    and "attr_id (attr s) \<noteq> key"
  shows "search_scan key (slots[i := s]) n = (PSA_ERROR_DOES_NOT_EXIST, 0)"
  using assms
proof (induction n)
  case 0
  then show ?case by simp
next
  case (Suc n)
  from Suc.prems have here: "attr_id (attr (slots ! n)) \<noteq> key"
    and below: "fst (search_scan key slots n) = PSA_ERROR_DOES_NOT_EXIST"
    by (auto simp: key_id_equal_iff split: if_splits)
  from here Suc.prems(2) have "attr_id (attr (slots[i := s] ! n)) \<noteq> key"
    by (rule nth_update_cases)
  with Suc.IH [OF below Suc.prems(2)] show ?case
    by (simp add: key_id_equal_iff)
qed

lemma search_miss_update:
  assumes miss: "psa_search_key_in_slots cfg key p g = Some (PSA_ERROR_DOES_NOT_EXIST, s, g')"
    and other: "attr_id (attr x) \<noteq> key"
  shows "psa_search_key_in_slots cfg key p (g\<lparr>key_slots := (key_slots g)[i := x]\<rparr>) =
           Some (PSA_ERROR_DOES_NOT_EXIST, p, g\<lparr>key_slots := (key_slots g)[i := x]\<rparr>)"
proof -
  let ?g = "g\<lparr>key_slots := (key_slots g)[i := x]\<rparr>"
  have valid: "psa_validate_key_id cfg key 1 1 = PSA_SUCCESS"
    using miss by (rule search_miss_valid)
  have count: "PSA_KEY_SLOT_COUNT ?g = PSA_KEY_SLOT_COUNT g"
    by (simp add: PSA_KEY_SLOT_COUNT_def)
  show ?thesis
  proof (cases "psa_key_id_is_volatile cfg (key_id key)")
    case True
    let ?k = "unat (key_id key - PSA_KEY_ID_VOLATILE_MIN cfg)"
    from True valid miss have k: "?k < PSA_KEY_SLOT_COUNT g"
      "attr_id (attr (key_slots g ! ?k)) \<noteq> key"
      by (auto simp: psa_search_key_in_slots_def Let_def MBEDTLS_SVC_KEY_ID_GET_KEY_ID_def
          key_id_equal_iff split: if_splits)
    from k(2) other have "attr_id (attr ((key_slots g)[i := x] ! ?k)) \<noteq> key"
      by (rule nth_update_cases)
    then have "attr_id (attr (key_slots ?g ! ?k)) \<noteq> key"
      by simp
    with k(1) count search_volatile [OF True, of ?g p] show ?thesis by simp
  next
    case False
    with valid miss have "fst (search_scan key (key_slots g) (PSA_KEY_SLOT_COUNT g)) =
        PSA_ERROR_DOES_NOT_EXIST"
      by (auto simp: psa_search_key_in_slots_def Let_def MBEDTLS_SVC_KEY_ID_GET_KEY_ID_def
          split: if_splits prod.splits)
    from search_scan_update [OF this other, of i] False valid count show ?thesis
      by (simp add: psa_search_key_in_slots_def Let_def MBEDTLS_SVC_KEY_ID_GET_KEY_ID_def)
  qed
qed

lemma get_empty_success_slot:
  "psa_get_empty_key_slot cfg v p g = (PSA_SUCCESS, a, Some i, g') \<Longrightarrow>
   i < PSA_KEY_SLOT_COUNT g \<and> \<not> psa_is_key_slot_occupied cfg (key_slots g ! i)"
  using get_empty_success [of cfg v p g a "Some i" g'] by auto

lemma load_into_slot_table:
  "\<exists>x. psa_load_persistent_key_into_slot cfg stor slot g =
         (fst (psa_load_persistent_key_into_slot cfg stor slot g),
          g\<lparr>key_slots := (key_slots g)[slot := x]\<rparr>)"
  by (auto simp: psa_load_persistent_key_into_slot_def split: prod.splits)

lemma load_failure_wipes:
  assumes init: "key_slots_initialized g"
    and storage: "MBEDTLS_PSA_CRYPTO_STORAGE_C cfg"
    and miss: "psa_search_key_in_slots cfg key None g = Some (PSA_ERROR_DOES_NOT_EXIST, None, g)"
    and alloc: "psa_get_empty_key_slot cfg None None g = (PSA_SUCCESS, vid, Some slot, g)"
    and load: "fst (psa_load_persistent_key_into_slot cfg stor slot
                 (g\<lparr>key_slots := (key_slots g)
                    [slot := set_slot_lifetime_id (PSA_KEY_LIFETIME_PERSISTENT cfg) key
                       (key_slots g ! slot)]\<rparr>)) = status"
    and failed: "status \<noteq> PSA_SUCCESS"
  shows "psa_get_key_slot cfg stor key g =
           Some (status, Some slot, g\<lparr>key_slots := (key_slots g)[slot := empty_slot]\<rparr>)"
proof -
  let ?g1 = "g\<lparr>key_slots := (key_slots g)
      [slot := set_slot_lifetime_id (PSA_KEY_LIFETIME_PERSISTENT cfg) key (key_slots g ! slot)]\<rparr>"
  let ?g' = "g\<lparr>key_slots := (key_slots g)[slot := empty_slot]\<rparr>"
  obtain x where x: "psa_load_persistent_key_into_slot cfg stor slot ?g1 =
      (status, ?g1\<lparr>key_slots := (key_slots ?g1)[slot := x]\<rparr>)"
    using load_into_slot_table [of cfg stor slot ?g1] load by auto
  have wiped: "snd (psa_wipe_key_slot slot (?g1\<lparr>key_slots := (key_slots ?g1)[slot := x]\<rparr>)) = ?g'"
    by (simp add: psa_wipe_key_slot_def)
  show ?thesis
    using init storage miss alloc failed x wiped
    by (simp add: psa_get_key_slot_def Let_def)
qed

subsection \<open>Getting a key slot\<close>

text \<open>
  Claim C2. In a build with persistent storage, whenever the search for an identifier
  misses, \<^verbatim>\<open>psa_get_empty_key_slot\<close> provides a slot and the load into that slot fails
  with any status, \<^verbatim>\<open>psa_get_key_slot\<close> returns that status and has wiped the slot: the
  table is the table of the call with the provisional slot reset to the empty slot. It
  is the very table of the call when the slot was all-zero before, as every unoccupied
  slot is after startup or a wipe. A search for the same identifier in the resulting
  table answers \<^verbatim>\<open>PSA_ERROR_DOES_NOT_EXIST\<close>.
\<close>

theorem get_key_slot_load_failure:
  assumes ranges: "key_id_ranges_ok cfg"
    and init: "key_slots_initialized g"
    and storage: "MBEDTLS_PSA_CRYPTO_STORAGE_C cfg"
    and miss: "psa_search_key_in_slots cfg key None g = Some (PSA_ERROR_DOES_NOT_EXIST, None, g)"
    and alloc: "psa_get_empty_key_slot cfg None None g = (PSA_SUCCESS, vid, Some slot, g)"
    and load: "fst (psa_load_persistent_key_into_slot cfg stor slot
                 (g\<lparr>key_slots := (key_slots g)
                    [slot := set_slot_lifetime_id (PSA_KEY_LIFETIME_PERSISTENT cfg) key
                       (key_slots g ! slot)]\<rparr>)) = status"
    and failed: "status \<noteq> PSA_SUCCESS"
  shows "psa_get_key_slot cfg stor key g =
           Some (status, Some slot, g\<lparr>key_slots := (key_slots g)[slot := empty_slot]\<rparr>) \<and>
         key_slots (g\<lparr>key_slots := (key_slots g)[slot := empty_slot]\<rparr>) ! slot = empty_slot \<and>
         (key_slots g ! slot = empty_slot \<longrightarrow>
            g\<lparr>key_slots := (key_slots g)[slot := empty_slot]\<rparr> = g) \<and>
         psa_search_key_in_slots cfg key None
             (g\<lparr>key_slots := (key_slots g)[slot := empty_slot]\<rparr>) =
           Some (PSA_ERROR_DOES_NOT_EXIST, None,
                 g\<lparr>key_slots := (key_slots g)[slot := empty_slot]\<rparr>)"
proof -
  let ?g' = "g\<lparr>key_slots := (key_slots g)[slot := empty_slot]\<rparr>"
  from get_empty_success_slot [OF alloc] have slot: "slot < length (key_slots g)"
    by (simp add: PSA_KEY_SLOT_COUNT_def)
  have result: "psa_get_key_slot cfg stor key g = Some (status, Some slot, ?g')"
    using init storage miss alloc load failed by (rule load_failure_wipes)
  have empty: "key_slots ?g' ! slot = empty_slot"
    using slot by simp
  have same: "?g' = g" if "key_slots g ! slot = empty_slot"
  proof -
    from that have "(key_slots g)[slot := empty_slot] = key_slots g"
      by (metis list_update_id)
    then show ?thesis by simp
  qed
  have "key \<noteq> null_key_id"
    using ranges search_miss_valid [OF miss] by (rule validated_not_null)
  then have "attr_id (attr empty_slot) \<noteq> key"
    by (auto simp: empty_slot_def)
  with miss have after: "psa_search_key_in_slots cfg key None ?g' =
      Some (PSA_ERROR_DOES_NOT_EXIST, None, ?g')"
    by (rule search_miss_update)
  from result empty same after show ?thesis by blast
qed

lemma failing_load:
  "fst (psa_load_persistent_key_into_slot cfg failing_storage slot g) = PSA_ERROR_STORAGE_FAILURE"
  by (simp add: psa_load_persistent_key_into_slot_def load_persistent_key_into_def
      failing_storage_def split: prod.splits)

lemma scenario_initialized: "key_slots_initialized scenario_table"
  by (simp add: scenario_table_def)

lemma full_initialized: "key_slots_initialized full_table"
  by (simp add: full_table_def)

lemma example_storage: "MBEDTLS_PSA_CRYPTO_STORAGE_C example_config"
  by (simp add: example_config_def)

lemma scenario_slot_empty: "key_slots scenario_table ! 3 = empty_slot"
  by (simp add: scenario_table_def)

lemma search_scenario_miss_persistent:
  "psa_search_key_in_slots example_config \<lparr>key_id = 60, owner = 0\<rparr> None scenario_table =
     Some (PSA_ERROR_DOES_NOT_EXIST, None, scenario_table)"
  by (simp add: psa_search_key_in_slots_def psa_validate_key_id_def psa_key_id_is_volatile_def
      MBEDTLS_SVC_KEY_ID_GET_KEY_ID_def mbedtls_svc_key_id_equal_def PSA_KEY_SLOT_COUNT_def
      example_config_def scenario_table_def mk_slot_def empty_slot_def null_key_id_def)

lemma search_scenario_miss_volatile:
  "psa_search_key_in_slots example_config \<lparr>key_id = 0x7fffffff, owner = 0\<rparr> None scenario_table =
     Some (PSA_ERROR_DOES_NOT_EXIST, None, scenario_table)"
  by (simp add: psa_search_key_in_slots_def psa_validate_key_id_def psa_key_id_is_volatile_def
      MBEDTLS_SVC_KEY_ID_GET_KEY_ID_def mbedtls_svc_key_id_equal_def PSA_KEY_SLOT_COUNT_def
      example_config_def scenario_table_def mk_slot_def empty_slot_def null_key_id_def)

lemma search_full_miss_volatile:
  "psa_search_key_in_slots example_config \<lparr>key_id = 0x7fffffff, owner = 0\<rparr> None full_table =
     Some (PSA_ERROR_DOES_NOT_EXIST, None, full_table)"
  by (simp add: psa_search_key_in_slots_def psa_validate_key_id_def psa_key_id_is_volatile_def
      MBEDTLS_SVC_KEY_ID_GET_KEY_ID_def mbedtls_svc_key_id_equal_def PSA_KEY_SLOT_COUNT_def
      example_config_def full_table_def mk_slot_def empty_slot_def null_key_id_def)

theorem get_key_slot_load_failure_witness:
  "key_id_ranges_ok example_config \<and>
   key_slots_initialized scenario_table \<and>
   MBEDTLS_PSA_CRYPTO_STORAGE_C example_config \<and>
   psa_search_key_in_slots example_config \<lparr>key_id = 60, owner = 0\<rparr> None scenario_table =
     Some (PSA_ERROR_DOES_NOT_EXIST, None, scenario_table) \<and>
   psa_get_empty_key_slot example_config None None scenario_table =
     (PSA_SUCCESS, Some 0x7fffffff, Some 3, scenario_table) \<and>
   fst (psa_load_persistent_key_into_slot example_config failing_storage 3
          (scenario_table\<lparr>key_slots := (key_slots scenario_table)
             [3 := set_slot_lifetime_id (PSA_KEY_LIFETIME_PERSISTENT example_config)
                \<lparr>key_id = 60, owner = 0\<rparr> (key_slots scenario_table ! 3)]\<rparr>)) =
     PSA_ERROR_STORAGE_FAILURE \<and>
   key_slots scenario_table ! 3 = empty_slot \<and>
   psa_get_key_slot example_config failing_storage \<lparr>key_id = 60, owner = 0\<rparr> scenario_table =
     Some (PSA_ERROR_STORAGE_FAILURE, Some 3, scenario_table)"
proof -
  note t = get_key_slot_load_failure [OF example_config_ranges_ok scenario_initialized
      example_storage search_scenario_miss_persistent get_empty_scenario failing_load]
  have same: "scenario_table\<lparr>key_slots := (key_slots scenario_table)[3 := empty_slot]\<rparr> =
      scenario_table"
    using t scenario_slot_empty by simp
  from t have "psa_get_key_slot example_config failing_storage \<lparr>key_id = 60, owner = 0\<rparr>
      scenario_table =
      Some (PSA_ERROR_STORAGE_FAILURE, Some 3,
        scenario_table\<lparr>key_slots := (key_slots scenario_table)[3 := empty_slot]\<rparr>)"
    by simp
  with same have "psa_get_key_slot example_config failing_storage \<lparr>key_id = 60, owner = 0\<rparr>
      scenario_table = Some (PSA_ERROR_STORAGE_FAILURE, Some 3, scenario_table)"
    by simp
  with example_config_ranges_ok scenario_initialized example_storage
    search_scenario_miss_persistent get_empty_scenario scenario_slot_empty
  show ?thesis by (simp add: failing_load)
qed

text \<open>
  Claim C1, amended. After a search miss, a build with persistent storage tries the
  allocation and the load for every identifier, those of the volatile range included:
  \<^verbatim>\<open>psa_get_key_slot\<close> returns \<^verbatim>\<open>PSA_ERROR_INSUFFICIENT_MEMORY\<close> when every slot is
  occupied, and otherwise the status of the persistent loader run on the allocated slot,
  which has been given the persistent lifetime and the requested identifier. Only a
  build without persistent storage returns \<^verbatim>\<open>PSA_ERROR_DOES_NOT_EXIST\<close> without
  allocating, and it does so for every identifier.
\<close>

theorem get_key_slot_miss_allocates:
  assumes init: "key_slots_initialized g"
    and miss: "psa_search_key_in_slots cfg key None g = Some (PSA_ERROR_DOES_NOT_EXIST, None, g)"
  shows "(\<not> MBEDTLS_PSA_CRYPTO_STORAGE_C cfg \<longrightarrow>
            psa_get_key_slot cfg stor key g = Some (PSA_ERROR_DOES_NOT_EXIST, None, g)) \<and>
         (MBEDTLS_PSA_CRYPTO_STORAGE_C cfg \<and>
          (\<forall>i<PSA_KEY_SLOT_COUNT g. psa_is_key_slot_occupied cfg (key_slots g ! i)) \<longrightarrow>
            psa_get_key_slot cfg stor key g = Some (PSA_ERROR_INSUFFICIENT_MEMORY, None, g)) \<and>
         (MBEDTLS_PSA_CRYPTO_STORAGE_C cfg \<and>
          psa_get_empty_key_slot cfg None None g = (PSA_SUCCESS, vid, Some slot, g) \<longrightarrow>
            (\<exists>g'. psa_get_key_slot cfg stor key g =
               Some (fst (psa_load_persistent_key_into_slot cfg stor slot
                       (g\<lparr>key_slots := (key_slots g)
                          [slot := set_slot_lifetime_id (PSA_KEY_LIFETIME_PERSISTENT cfg) key
                             (key_slots g ! slot)]\<rparr>)),
                     Some slot, g')))"
proof -
  have none: "psa_get_key_slot cfg stor key g = Some (PSA_ERROR_DOES_NOT_EXIST, None, g)"
    if "\<not> MBEDTLS_PSA_CRYPTO_STORAGE_C cfg"
    using that init miss by (simp add: psa_get_key_slot_def)
  have full: "psa_get_key_slot cfg stor key g = Some (PSA_ERROR_INSUFFICIENT_MEMORY, None, g)"
    if a: "MBEDTLS_PSA_CRYPTO_STORAGE_C cfg \<and>
      (\<forall>i<PSA_KEY_SLOT_COUNT g. psa_is_key_slot_occupied cfg (key_slots g ! i))"
  proof -
    from a init have "psa_get_empty_key_slot cfg None None g =
        (PSA_ERROR_INSUFFICIENT_MEMORY, None, None, g)"
      by (simp add: psa_get_empty_key_slot_def get_empty_scan_full)
    with a init miss show ?thesis by (simp add: psa_get_key_slot_def)
  qed
  have loads: "\<exists>g'. psa_get_key_slot cfg stor key g =
      Some (fst (psa_load_persistent_key_into_slot cfg stor slot
              (g\<lparr>key_slots := (key_slots g)
                 [slot := set_slot_lifetime_id (PSA_KEY_LIFETIME_PERSISTENT cfg) key
                    (key_slots g ! slot)]\<rparr>)),
            Some slot, g')"
    if a: "MBEDTLS_PSA_CRYPTO_STORAGE_C cfg \<and>
      psa_get_empty_key_slot cfg None None g = (PSA_SUCCESS, vid, Some slot, g)"
    using a init miss
    by (auto simp: psa_get_key_slot_def Let_def split: prod.splits)
  from none full loads show ?thesis by blast
qed

lemma get_key_slot_scenario_volatile:
  "psa_get_key_slot example_config failing_storage \<lparr>key_id = 0x7fffffff, owner = 0\<rparr>
     scenario_table = Some (PSA_ERROR_STORAGE_FAILURE, Some 3, scenario_table)"
proof -
  have "scenario_table\<lparr>key_slots := (key_slots scenario_table)[3 := empty_slot]\<rparr> =
      scenario_table"
    by (simp add: scenario_table_def)
  with load_failure_wipes [OF scenario_initialized example_storage
      search_scenario_miss_volatile get_empty_scenario failing_load]
  show ?thesis by simp
qed

lemma get_key_slot_full_volatile:
  "psa_get_key_slot example_config stor \<lparr>key_id = 0x7fffffff, owner = 0\<rparr> full_table =
     Some (PSA_ERROR_INSUFFICIENT_MEMORY, None, full_table)"
proof -
  have "psa_get_empty_key_slot example_config None None full_table =
      (PSA_ERROR_INSUFFICIENT_MEMORY, None, None, full_table)"
    by (simp add: psa_get_empty_key_slot_def full_initialized get_empty_scan_full
        full_table_occupied)
  then show ?thesis
    by (simp add: psa_get_key_slot_def full_initialized search_full_miss_volatile
        example_storage)
qed

lemma volatile_top: "psa_key_id_is_volatile example_config 0x7fffffff"
  by (simp add: psa_key_id_is_volatile_def example_config_def)

lemma full_table_slot:
  "attr_id (attr (key_slots full_table ! 3)) = \<lparr>key_id = 51, owner = 0\<rparr>"
  by (simp add: full_table_def mk_slot_def)

text \<open>
  Claim C1 as stated fails. The identifier \<open>0x7fffffff\<close> is volatile and its slot, of
  index 3, does not store it. On the full table \<^verbatim>\<open>psa_get_key_slot\<close> returns
  \<^verbatim>\<open>PSA_ERROR_INSUFFICIENT_MEMORY\<close>, the allocator's error; on the table with a free
  slot it returns \<^verbatim>\<open>PSA_ERROR_STORAGE_FAILURE\<close>, the loader's error.
\<close>

theorem get_key_slot_volatile_counterexample:
  "psa_key_id_is_volatile example_config (key_id \<lparr>key_id = 0x7fffffff, owner = 0\<rparr>) \<and>
   attr_id (attr (key_slots full_table ! 3)) \<noteq> \<lparr>key_id = 0x7fffffff, owner = 0\<rparr> \<and>
   psa_get_key_slot example_config failing_storage \<lparr>key_id = 0x7fffffff, owner = 0\<rparr>
     full_table = Some (PSA_ERROR_INSUFFICIENT_MEMORY, None, full_table) \<and>
   attr_id (attr (key_slots scenario_table ! 3)) \<noteq> \<lparr>key_id = 0x7fffffff, owner = 0\<rparr> \<and>
   psa_get_key_slot example_config failing_storage \<lparr>key_id = 0x7fffffff, owner = 0\<rparr>
     scenario_table = Some (PSA_ERROR_STORAGE_FAILURE, Some 3, scenario_table)"
  using volatile_top full_table_slot scenario_slot_empty
  by (simp add: get_key_slot_full_volatile get_key_slot_scenario_volatile empty_slot_def
      null_key_id_def)

theorem get_key_slot_miss_allocates_witness:
  "key_slots_initialized scenario_table \<and>
   psa_key_id_is_volatile example_config (key_id \<lparr>key_id = 0x7fffffff, owner = 0\<rparr>) \<and>
   psa_search_key_in_slots example_config \<lparr>key_id = 0x7fffffff, owner = 0\<rparr> None scenario_table =
     Some (PSA_ERROR_DOES_NOT_EXIST, None, scenario_table) \<and>
   MBEDTLS_PSA_CRYPTO_STORAGE_C example_config \<and>
   psa_get_empty_key_slot example_config None None scenario_table =
     (PSA_SUCCESS, Some 0x7fffffff, Some 3, scenario_table) \<and>
   psa_get_key_slot example_config failing_storage \<lparr>key_id = 0x7fffffff, owner = 0\<rparr>
     scenario_table = Some (PSA_ERROR_STORAGE_FAILURE, Some 3, scenario_table) \<and>
   psa_get_key_slot example_config failing_storage \<lparr>key_id = 0x7fffffff, owner = 0\<rparr> full_table =
     Some (PSA_ERROR_INSUFFICIENT_MEMORY, None, full_table) \<and>
   psa_get_key_slot (example_config\<lparr>MBEDTLS_PSA_CRYPTO_STORAGE_C := False\<rparr>) failing_storage
       \<lparr>key_id = 0x7fffffff, owner = 0\<rparr> scenario_table =
     Some (PSA_ERROR_DOES_NOT_EXIST, None, scenario_table)"
proof -
  have loads: "\<exists>g'. psa_get_key_slot example_config failing_storage
      \<lparr>key_id = 0x7fffffff, owner = 0\<rparr> scenario_table =
      Some (PSA_ERROR_STORAGE_FAILURE, Some 3, g')"
    using get_key_slot_miss_allocates [OF scenario_initialized search_scenario_miss_volatile,
        where stor = failing_storage and vid = "Some 0x7fffffff" and slot = 3]
      example_storage get_empty_scenario
    by (simp add: failing_load)
  have full: "psa_get_key_slot example_config failing_storage
      \<lparr>key_id = 0x7fffffff, owner = 0\<rparr> full_table =
      Some (PSA_ERROR_INSUFFICIENT_MEMORY, None, full_table)"
    using get_key_slot_miss_allocates [OF full_initialized search_full_miss_volatile,
        where stor = failing_storage]
      example_storage full_table_occupied
    by simp
  have miss': "psa_search_key_in_slots (example_config\<lparr>MBEDTLS_PSA_CRYPTO_STORAGE_C := False\<rparr>)
      \<lparr>key_id = 0x7fffffff, owner = 0\<rparr> None scenario_table =
      Some (PSA_ERROR_DOES_NOT_EXIST, None, scenario_table)"
    by (simp add: psa_search_key_in_slots_def psa_validate_key_id_def psa_key_id_is_volatile_def
        MBEDTLS_SVC_KEY_ID_GET_KEY_ID_def mbedtls_svc_key_id_equal_def PSA_KEY_SLOT_COUNT_def
        example_config_def scenario_table_def mk_slot_def empty_slot_def null_key_id_def)
  have none: "psa_get_key_slot (example_config\<lparr>MBEDTLS_PSA_CRYPTO_STORAGE_C := False\<rparr>)
      failing_storage \<lparr>key_id = 0x7fffffff, owner = 0\<rparr> scenario_table =
      Some (PSA_ERROR_DOES_NOT_EXIST, None, scenario_table)"
    using get_key_slot_miss_allocates [OF scenario_initialized miss',
        where stor = failing_storage]
    by simp
  from loads get_key_slot_scenario_volatile
  have "psa_get_key_slot example_config failing_storage \<lparr>key_id = 0x7fffffff, owner = 0\<rparr>
      scenario_table = Some (PSA_ERROR_STORAGE_FAILURE, Some 3, scenario_table)"
    by simp
  with scenario_initialized volatile_top search_scenario_miss_volatile example_storage
    get_empty_scenario full none
  show ?thesis by simp
qed

end
